theory Spec2Isabelle
  imports Complex_Main
begin

section \<open>Tokens (token.h)\<close>

text \<open>
  The enumeration \<^verbatim>\<open>TokenType\<close> of \<^verbatim>\<open>token.h\<close>, constructor for constructor.
\<close>

datatype TokenType =
    CLASS | FUNC | VAR | IF | ELSE | WHILE | FOR | RETURN | TRY | CATCH | FINALLY
  | TRUE | FALSE | NULL
  | PLUS | MINUS | MULTIPLY | DIVIDE | MODULO
  | EQUAL | EQUAL_EQUAL | BANG | BANG_EQUAL
  | LESS | LESS_EQUAL | GREATER | GREATER_EQUAL
  | AND | OR | NOT
  | LEFT_PAREN | RIGHT_PAREN | LEFT_BRACE | RIGHT_BRACE
  | LEFT_BRACKET | RIGHT_BRACKET | COMMA | DOT | SEMICOLON
  | COLON
  | IDENTIFIER | STRING | NUMBER
  | EOF_TOKEN

section \<open>Syntax trees (ast.h)\<close>

text \<open>
  The node classes of \<^verbatim>\<open>ast.h\<close>. The type variable \<open>'f\<close> stands for the C++ type
  \<^verbatim>\<open>double\<close>. A \<^verbatim>\<open>BinaryExpr\<close> and a \<^verbatim>\<open>UnaryExpr\<close> keep the type of their
  operator token, the only field of the token the interpreter reads. Optional children
  (\<^verbatim>\<open>unique_ptr\<close> that may be null) are options; the other children are never null in
  a tree (the parser leaves one null only after it has reported an error, and evaluating
  it would dereference a null pointer). The methods of a \<^verbatim>\<open>ClassDecl\<close> are
  \<^verbatim>\<open>FuncDecl\<close> nodes, kept as triples of name, parameters and body.
\<close>

datatype 'f Expr =
    LiteralExpr string
  | NumberExpr 'f
  | StringExpr string
  | BoolExpr bool
  | NullExpr
  | VariableExpr string
  | BinaryExpr "'f Expr" TokenType "'f Expr"
  | UnaryExpr TokenType "'f Expr"
  | CallExpr "'f Expr" "'f Expr list"
  | ArrayExpr "'f Expr list"
  | MapExpr "('f Expr \<times> 'f Expr) list"
  | MemberExpr "'f Expr" string
  | IndexExpr "'f Expr" "'f Expr"
  | AssignExpr "'f Expr" "'f Expr"

datatype 'f Stmt =
    ExprStmt "'f Expr"
  | VarDecl string "'f Expr option"
  | FuncDecl string "string list" "'f Stmt list"
  | ClassDecl string "(string \<times> string list \<times> 'f Stmt list) list"
  | ReturnStmt "'f Expr option"
  | IfStmt "'f Expr" "'f Stmt list" "'f Stmt list"
  | WhileStmt "'f Expr" "'f Stmt list"
  | ForStmt "'f Stmt option" "'f Expr option" "'f Expr option" "'f Stmt list"
  | TryStmt "'f Stmt list" string "'f Stmt list" "'f Stmt list"
  | BlockStmt "'f Stmt list"

section \<open>Runtime values (object.h)\<close>

text \<open>
  The callable of a \<^verbatim>\<open>FunctionObject\<close> is a \<^verbatim>\<open>std::function\<close>. The program builds three
  kinds of them: the lambda of \<^verbatim>\<open>executeFuncDecl\<close>, which captures the interpreter and a
  reference to the declaration (its parameters and body) and no environment; the lambda
  of \<^verbatim>\<open>executeClassDecl\<close>, which returns null; and the native functions of
  \<^verbatim>\<open>defineBuiltins\<close>.
\<close>

datatype Builtin = printFunc | lenFunc | typeFunc | absFunc | strFunc | intFunc | floatFunc

datatype 'f Callable =
    FuncDeclBody "string list" "'f Stmt list"
  | MethodStub
  | Native Builtin

text \<open>
  One constructor for each subclass of \<^verbatim>\<open>Object\<close>. Integers are \<^verbatim>\<open>long long\<close>; the value
  carried is the mathematical integer, and the operations below say what happens outside
  the 64-bit range. Arrays, maps, functions and classes are never mutated after they are
  built (the language has no index assignment), so a shared pointer to one is modelled by
  the value itself. An \<^verbatim>\<open>InstanceObject\<close> is mutable and compared by address: the value
  is its address in the interpreter's store of instances, together with the name and the
  methods of its class (the copy of the \<^verbatim>\<open>ClassObject\<close> made by \<^verbatim>\<open>instantiate\<close>, which
  never changes); the store keeps its fields. A \<^verbatim>\<open>MapObject\<close> is a list of pairs with
  distinct keys, in the iteration order of the \<^verbatim>\<open>unordered_map\<close>.
\<close>

datatype 'f Object =
    IntegerObject int
  | FloatObject 'f
  | StringObject string
  | BooleanObject bool
  | NullObject
  | ArrayObject "'f Object list"
  | MapObject "(string \<times> 'f Object) list"
  | FunctionObject string "'f Callable" nat
  | ClassObject string "string \<Rightarrow> 'f Object option"
  | InstanceObject nat string "string \<Rightarrow> 'f Object option"

section \<open>Environments (environment.cpp)\<close>

text \<open>
  An \<^verbatim>\<open>Environment\<close> holds its own bindings and a pointer to the enclosing environment,
  null for the global one. Every environment is created as a child of the interpreter's
  current environment and no function value captures one, so the environments alive at
  any moment form a single chain from the current one to the global one; the chain is the
  value below, and a mutation of an enclosing frame rebuilds the chain around it.
\<close>

datatype 'f Environment =
  Environment (env_values: "string \<Rightarrow> 'f Object option") (env_enclosing: "'f Environment option")

fun Environment_define :: "'f Environment \<Rightarrow> string \<Rightarrow> 'f Object \<Rightarrow> 'f Environment" where
  "Environment_define (Environment vs enc) name v = Environment (vs(name \<mapsto> v)) enc"

fun Environment_get :: "'f Environment \<Rightarrow> string \<Rightarrow> 'f Object" where
  "Environment_get (Environment vs enc) name =
     (case vs name of
        Some v \<Rightarrow> v
      | None \<Rightarrow> (case enc of Some p \<Rightarrow> Environment_get p name | None \<Rightarrow> NullObject))"

fun Environment_assign :: "'f Environment \<Rightarrow> string \<Rightarrow> 'f Object \<Rightarrow> 'f Environment" where
  "Environment_assign (Environment vs enc) name v =
     (case vs name of
        Some old \<Rightarrow> Environment (vs(name \<mapsto> v)) enc
      | None \<Rightarrow>
          (case enc of
             Some p \<Rightarrow> Environment vs (Some (Environment_assign p name v))
           | None \<Rightarrow> Environment_define (Environment vs enc) name v))"

section \<open>Machine numbers\<close>

text \<open>
  The arithmetic of \<^verbatim>\<open>double\<close> and the library functions on it are parameters of the
  model: a record of the operations the program applies to doubles.
\<close>

record 'f DoubleOps =
  double_of_ll :: "int \<Rightarrow> 'f"
  double_add :: "'f \<Rightarrow> 'f \<Rightarrow> 'f"
  double_sub :: "'f \<Rightarrow> 'f \<Rightarrow> 'f"
  double_mul :: "'f \<Rightarrow> 'f \<Rightarrow> 'f"
  double_div :: "'f \<Rightarrow> 'f \<Rightarrow> 'f"
  double_neg :: "'f \<Rightarrow> 'f"
  double_abs :: "'f \<Rightarrow> 'f"
  double_less :: "'f \<Rightarrow> 'f \<Rightarrow> bool"
  double_eq :: "'f \<Rightarrow> 'f \<Rightarrow> bool"
  double_to_string :: "'f \<Rightarrow> string"
  double_to_ll :: "'f \<Rightarrow> int option"
  stod :: "string \<Rightarrow> 'f option"

text \<open>
  A pure step of the program yields a value, throws a \<^verbatim>\<open>std::runtime_error\<close> with a
  message, or has undefined behaviour in C++ (signed overflow, a remainder by zero, a
  \<^verbatim>\<open>static_cast\<close> to the wrong class).
\<close>

datatype 'a Result = Value 'a | Throw string | UB

definition LLONG_MIN :: int where
  "LLONG_MIN = - (2 ^ 63)"

definition LLONG_MAX :: int where
  "LLONG_MAX = 2 ^ 63 - 1"

text \<open>
  \<^verbatim>\<open>makeInteger\<close> on the result of an operation on \<^verbatim>\<open>long long\<close>, given as the
  mathematical integer: outside the range of the type the operation has overflowed, which
  is undefined.
\<close>

definition makeInteger :: "int \<Rightarrow> 'f Object Result" where
  "makeInteger i = (if LLONG_MIN \<le> i \<and> i \<le> LLONG_MAX then Value (IntegerObject i) else UB)"

text \<open>The remainder of C++ takes the sign of the dividend.\<close>

definition ll_rem :: "int \<Rightarrow> int \<Rightarrow> 'f Object Result" where
  "ll_rem a b =
     (if b = 0 \<or> (a = LLONG_MIN \<and> b = - 1) then UB
      else Value (IntegerObject (sgn a * (\<bar>a\<bar> mod \<bar>b\<bar>))))"

text \<open>\<^verbatim>\<open>std::to_string(long long)\<close>: decimal digits, with a minus sign when negative.\<close>

fun digits :: "nat \<Rightarrow> string" where
  "digits n =
     (if n < 10 then [''0123456789'' ! n]
      else digits (n div 10) @ [''0123456789'' ! (n mod 10)])"

definition to_string :: "int \<Rightarrow> string" where
  "to_string i = (if i < 0 then CHR ''-'' # digits (nat (- i)) else digits (nat i))"

text \<open>
  \<^verbatim>\<open>std::stoll\<close>: leading white space, an optional sign, then decimal digits up to the
  first other character. \<open>None\<close> is the exception it throws when there is no digit or the
  number does not fit \<^verbatim>\<open>long long\<close>.
\<close>

definition isspace :: "char \<Rightarrow> bool" where
  "isspace c = (c \<in> set [CHR '' '', CHR 0x09, CHR 0x0A, CHR 0x0B, CHR 0x0C, CHR 0x0D])"

definition isDigit :: "char \<Rightarrow> bool" where
  "isDigit c = (of_char c \<ge> (of_char CHR ''0'' :: nat) \<and> of_char c \<le> (of_char CHR ''9'' :: nat))"

definition digits_value :: "string \<Rightarrow> int" where
  "digits_value ds = foldl (\<lambda>acc c. 10 * acc + (int (of_char c) - 48)) 0 ds"

definition stoll :: "string \<Rightarrow> int option" where
  "stoll text =
     (let rest = dropWhile isspace text;
          neg = (rest \<noteq> [] \<and> hd rest = CHR ''-'');
          body = (if rest \<noteq> [] \<and> (hd rest = CHR ''-'' \<or> hd rest = CHR ''+'') then tl rest else rest);
          ds = takeWhile isDigit body;
          v = (if neg then - digits_value ds else digits_value ds)
      in if ds = [] then None
         else if LLONG_MIN \<le> v \<and> v \<le> LLONG_MAX then Some v
         else None)"

section \<open>Operations on values (object.cpp, interpreter.cpp)\<close>

fun isTruthy :: "'f Object \<Rightarrow> bool" where
  "isTruthy NullObject = False"
| "isTruthy (BooleanObject b) = b"
| "isTruthy v = True"

text \<open>
  The virtual method \<^verbatim>\<open>equals\<close>. Each override first compares the type of the other
  object, except that of \<^verbatim>\<open>InstanceObject\<close>, which compares addresses.
\<close>

fun equals :: "'f DoubleOps \<Rightarrow> 'f Object \<Rightarrow> 'f Object \<Rightarrow> bool" where
  "equals D (IntegerObject a) other = (case other of IntegerObject b \<Rightarrow> a = b | _ \<Rightarrow> False)"
| "equals D (FloatObject a) other = (case other of FloatObject b \<Rightarrow> double_eq D a b | _ \<Rightarrow> False)"
| "equals D (StringObject a) other = (case other of StringObject b \<Rightarrow> a = b | _ \<Rightarrow> False)"
| "equals D (BooleanObject a) other = (case other of BooleanObject b \<Rightarrow> a = b | _ \<Rightarrow> False)"
| "equals D NullObject other = (case other of NullObject \<Rightarrow> True | _ \<Rightarrow> False)"
| "equals D (ArrayObject xs) other =
     (case other of
        ArrayObject ys \<Rightarrow> length xs = length ys \<and> list_all2 (equals D) xs ys
      | _ \<Rightarrow> False)"
| "equals D (MapObject ps) other =
     (case other of
        MapObject qs \<Rightarrow>
          length ps = length qs \<and>
          list_all (\<lambda>p. case map_of qs (fst p) of None \<Rightarrow> False | Some w \<Rightarrow> equals D (snd p) w) ps
      | _ \<Rightarrow> False)"
| "equals D (FunctionObject name c n) other =
     (case other of FunctionObject name' c' n' \<Rightarrow> name = name' | _ \<Rightarrow> False)"
| "equals D (ClassObject name ms) other =
     (case other of ClassObject name' ms' \<Rightarrow> name = name' | _ \<Rightarrow> False)"
| "equals D (InstanceObject a cn ms) other =
     (case other of InstanceObject b cn' ms' \<Rightarrow> a = b | _ \<Rightarrow> False)"

text \<open>
  The enumeration \<^verbatim>\<open>ObjectType\<close> and the virtual method \<^verbatim>\<open>type\<close>. The constructors carry
  the prefix \<open>OT_\<close>, since \<^verbatim>\<open>STRING\<close> and \<^verbatim>\<open>CLASS\<close> are token types too.
\<close>

datatype ObjectType =
    OT_INTEGER | OT_FLOAT | OT_STRING | OT_BOOLEAN | OT_NULL_OBJ
  | OT_ARRAY | OT_MAP | OT_FUNCTION | OT_CLASS | OT_INSTANCE

fun type_of :: "'f Object \<Rightarrow> ObjectType" where
  "type_of (IntegerObject i) = OT_INTEGER"
| "type_of (FloatObject d) = OT_FLOAT"
| "type_of (StringObject v) = OT_STRING"
| "type_of (BooleanObject b) = OT_BOOLEAN"
| "type_of NullObject = OT_NULL_OBJ"
| "type_of (ArrayObject xs) = OT_ARRAY"
| "type_of (MapObject ps) = OT_MAP"
| "type_of (FunctionObject name c n) = OT_FUNCTION"
| "type_of (ClassObject name ms) = OT_CLASS"
| "type_of (InstanceObject a cn ms) = OT_INSTANCE"

text \<open>\<^verbatim>\<open>Interpreter::isEqual\<close> compares the types first.\<close>

definition isEqual :: "'f DoubleOps \<Rightarrow> 'f Object \<Rightarrow> 'f Object \<Rightarrow> bool" where
  "isEqual D a b = (if type_of a \<noteq> type_of b then False else equals D a b)"

text \<open>The virtual method \<^verbatim>\<open>toString\<close>.\<close>

fun join :: "string \<Rightarrow> string list \<Rightarrow> string" where
  "join sep [] = []"
| "join sep [x] = x"
| "join sep (x # y # rest) = x @ sep @ join sep (y # rest)"

fun toString :: "'f DoubleOps \<Rightarrow> 'f Object \<Rightarrow> string" where
  "toString D (IntegerObject i) = to_string i"
| "toString D (FloatObject d) = double_to_string D d"
| "toString D (StringObject v) = ''\"'' @ v @ ''\"''"
| "toString D (BooleanObject b) = (if b then ''true'' else ''false'')"
| "toString D NullObject = ''null''"
| "toString D (ArrayObject xs) = ''['' @ join '', '' (map (toString D) xs) @ '']''"
| "toString D (MapObject ps) =
     ''{'' @ join '', '' (map (\<lambda>p. ''\"'' @ fst p @ ''\": '' @ toString D (snd p)) ps) @ ''}''"
| "toString D (FunctionObject name c n) = ''<function '' @ name @ ''>''"
| "toString D (ClassObject name ms) = ''<class '' @ name @ ''>''"
| "toString D (InstanceObject a cn ms) = ''<'' @ cn @ '' instance>''"

text \<open>
  \<^verbatim>\<open>InstanceObject::get\<close>, \<^verbatim>\<open>set\<close> and \<^verbatim>\<open>getMethod\<close>, on the method table of the class
  and the fields of the instance; \<^verbatim>\<open>get\<close> returns the value and the fields it leaves.
\<close>

definition getMethod :: "(string \<Rightarrow> 'f Object option) \<Rightarrow> string \<Rightarrow> 'f Object option" where
  "getMethod methods name = methods name"

definition InstanceObject_get ::
  "(string \<Rightarrow> 'f Object option) \<Rightarrow> (string \<Rightarrow> 'f Object option) \<Rightarrow> string
     \<Rightarrow> 'f Object \<times> (string \<Rightarrow> 'f Object option)" where
  "InstanceObject_get methods fs property =
     (case fs property of
        Some v \<Rightarrow> (v, fs)
      | None \<Rightarrow>
          (case getMethod methods property of
             Some method \<Rightarrow> (method, fs(property \<mapsto> method))
           | None \<Rightarrow> (NullObject, fs)))"

definition InstanceObject_set ::
  "(string \<Rightarrow> 'f Object option) \<Rightarrow> string \<Rightarrow> 'f Object \<Rightarrow> (string \<Rightarrow> 'f Object option)" where
  "InstanceObject_set fs property v = fs(property \<mapsto> v)"

section \<open>Operators (interpreter.cpp)\<close>

text \<open>
  \<^verbatim>\<open>checkNumberOperand\<close> and \<^verbatim>\<open>checkNumberOperands\<close> return when every operand is an
  Integer or a Float and throw otherwise.
\<close>

definition isNumber :: "'f Object \<Rightarrow> bool" where
  "isNumber v = (type_of v = OT_INTEGER \<or> type_of v = OT_FLOAT)"

definition checkNumberOperand :: "'f Object \<Rightarrow> unit Result" where
  "checkNumberOperand operand =
     (if isNumber operand then Value () else Throw ''Operand must be a number.'')"

definition checkNumberOperands :: "'f Object \<Rightarrow> 'f Object \<Rightarrow> unit Result" where
  "checkNumberOperands left right =
     (if isNumber left \<and> isNumber right then Value () else Throw ''Operands must be numbers.'')"

text \<open>
  The conversion the operators write as
  \<^verbatim>\<open>x->type() == FLOAT ? static_cast<FloatObject*>(x)->value() : static_cast<IntegerObject*>(x)->value()\<close>:
  an object that is neither a Float nor an Integer is read through a pointer of the wrong
  class, which is undefined (\<open>None\<close>).
\<close>

fun toDouble :: "'f DoubleOps \<Rightarrow> 'f Object \<Rightarrow> 'f option" where
  "toDouble D (FloatObject d) = Some d"
| "toDouble D (IntegerObject i) = Some (double_of_ll D i)"
| "toDouble D v = None"

definition floatOp :: "'f DoubleOps \<Rightarrow> ('f \<Rightarrow> 'f \<Rightarrow> 'a) \<Rightarrow> 'f Object \<Rightarrow> 'f Object \<Rightarrow> 'a Result" where
  "floatOp D f left right =
     (case (toDouble D left, toDouble D right) of
        (Some leftVal, Some rightVal) \<Rightarrow> Value (f leftVal rightVal)
      | _ \<Rightarrow> UB)"

definition makeFloat :: "'f Result \<Rightarrow> 'f Object Result" where
  "makeFloat r = (case r of Value d \<Rightarrow> Value (FloatObject d) | Throw m \<Rightarrow> Throw m | UB \<Rightarrow> UB)"

definition makeBoolean :: "bool Result \<Rightarrow> 'f Object Result" where
  "makeBoolean r = (case r of Value b \<Rightarrow> Value (BooleanObject b) | Throw m \<Rightarrow> Throw m | UB \<Rightarrow> UB)"

definition after :: "unit Result \<Rightarrow> 'a Result \<Rightarrow> 'a Result" where
  "after check r = (case check of Value u \<Rightarrow> r | Throw m \<Rightarrow> Throw m | UB \<Rightarrow> UB)"

text \<open>
  The \<^verbatim>\<open>switch\<close> of \<^verbatim>\<open>evaluateBinary\<close> on the operands' values. A case that ends in
  \<^verbatim>\<open>break\<close> reaches the final \<^verbatim>\<open>return makeNull()\<close>.
\<close>

definition binaryOp :: "'f DoubleOps \<Rightarrow> TokenType \<Rightarrow> 'f Object \<Rightarrow> 'f Object \<Rightarrow> 'f Object Result" where
  "binaryOp D op left right =
     (case op of
        PLUS \<Rightarrow>
          (case (left, right) of
             (IntegerObject a, IntegerObject b) \<Rightarrow> makeInteger (a + b)
           | _ \<Rightarrow>
              if type_of left = OT_FLOAT \<or> type_of right = OT_FLOAT
              then makeFloat (floatOp D (double_add D) left right)
              else (case (left, right) of
                      (StringObject a, StringObject b) \<Rightarrow> Value (StringObject (a @ b))
                    | _ \<Rightarrow> Value NullObject))
      | MINUS \<Rightarrow>
          after (checkNumberOperands left right)
            (case (left, right) of
               (IntegerObject a, IntegerObject b) \<Rightarrow> makeInteger (a - b)
             | _ \<Rightarrow> makeFloat (floatOp D (double_sub D) left right))
      | MULTIPLY \<Rightarrow>
          after (checkNumberOperands left right)
            (case (left, right) of
               (IntegerObject a, IntegerObject b) \<Rightarrow> makeInteger (a * b)
             | _ \<Rightarrow> makeFloat (floatOp D (double_mul D) left right))
      | DIVIDE \<Rightarrow>
          after (checkNumberOperands left right)
            (makeFloat (floatOp D (double_div D) left right))
      | MODULO \<Rightarrow>
          after (checkNumberOperands left right)
            (case (left, right) of
               (IntegerObject a, IntegerObject b) \<Rightarrow> ll_rem a b
             | _ \<Rightarrow> Value NullObject)
      | EQUAL_EQUAL \<Rightarrow> Value (BooleanObject (isEqual D left right))
      | BANG_EQUAL \<Rightarrow> Value (BooleanObject (\<not> isEqual D left right))
      | LESS \<Rightarrow>
          after (checkNumberOperands left right)
            (case (left, right) of
               (IntegerObject a, IntegerObject b) \<Rightarrow> Value (BooleanObject (a < b))
             | _ \<Rightarrow> makeBoolean (floatOp D (double_less D) left right))
      | LESS_EQUAL \<Rightarrow> after (checkNumberOperands left right) (Value NullObject)
      | GREATER \<Rightarrow> after (checkNumberOperands left right) (Value NullObject)
      | GREATER_EQUAL \<Rightarrow> after (checkNumberOperands left right) (Value NullObject)
      | AND \<Rightarrow> Value (BooleanObject (isTruthy left \<and> isTruthy right))
      | OR \<Rightarrow> Value (BooleanObject (isTruthy left \<or> isTruthy right))
      | _ \<Rightarrow> Value NullObject)"

text \<open>The \<^verbatim>\<open>switch\<close> of \<^verbatim>\<open>evaluateUnary\<close>.\<close>

definition unaryOp :: "'f DoubleOps \<Rightarrow> TokenType \<Rightarrow> 'f Object \<Rightarrow> 'f Object Result" where
  "unaryOp D op right =
     (case op of
        MINUS \<Rightarrow>
          after (checkNumberOperand right)
            (case right of
               IntegerObject a \<Rightarrow> makeInteger (- a)
             | FloatObject d \<Rightarrow> Value (FloatObject (double_neg D d))
             | _ \<Rightarrow> UB)
      | BANG \<Rightarrow> Value (BooleanObject (\<not> isTruthy right))
      | _ \<Rightarrow> Value NullObject)"

text \<open>\<^verbatim>\<open>evaluateLiteral\<close>: the text of the literal is parsed as a number, and kept as a
  String when the parser throws.\<close>

definition evaluateLiteral :: "'f DoubleOps \<Rightarrow> string \<Rightarrow> 'f Object" where
  "evaluateLiteral D text =
     (if CHR ''.'' \<in> set text
      then (case stod D text of Some d \<Rightarrow> FloatObject d | None \<Rightarrow> StringObject text)
      else (case stoll text of Some i \<Rightarrow> IntegerObject i | None \<Rightarrow> StringObject text))"

text \<open>
  The index access of \<^verbatim>\<open>evaluateIndex\<close> on the values of its operands: the Integer is
  converted to \<^verbatim>\<open>size_t\<close> (modulo \<open>2 ^ 64\<close>) and compared with the size.
\<close>

definition indexValue :: "'f Object \<Rightarrow> 'f Object \<Rightarrow> 'f Object" where
  "indexValue array index =
     (case (array, index) of
        (ArrayObject elements, IntegerObject i) \<Rightarrow>
          (let idx = nat (i mod 2 ^ 64)
           in if idx < length elements then elements ! idx else NullObject)
      | _ \<Rightarrow> NullObject)"

section \<open>The interpreter's state (interpreter.h)\<close>

text \<open>
  The fields \<^verbatim>\<open>environment_\<close> and \<^verbatim>\<open>lastResult_\<close> of the class \<^verbatim>\<open>Interpreter\<close> (a name of
  Isabelle cannot end in an underscore), the store of the fields of every
  \<^verbatim>\<open>InstanceObject\<close> created so far, indexed by address, and the text written to
  \<^verbatim>\<open>std::cout\<close>. The field \<^verbatim>\<open>globals_\<close> points to the last frame of the chain
  \<open>environment\<close>. \<open>lastResult\<close> is \<open>None\<close> while the shared pointer is null.
\<close>

record 'f Interpreter =
  environment :: "'f Environment"
  lastResult :: "'f Object option"
  instances :: "(string \<Rightarrow> 'f Object option) list"
  cout :: string

text \<open>
  A step of the interpreter ends normally with a value and a state, leaves by a C++
  exception (every exception of the program is a \<^verbatim>\<open>std::runtime_error\<close>, kept by its
  message) with the state at the \<^verbatim>\<open>throw\<close>, or is undefined.
\<close>

datatype ('a, 's) Outcome = Normal 'a 's | Thrown string 's | Undefined

definition lift :: "'a Result \<Rightarrow> 's \<Rightarrow> ('a, 's) Outcome option" where
  "lift r s = (case r of Value a \<Rightarrow> Some (Normal a s) | Throw m \<Rightarrow> Some (Thrown m s) | UB \<Rightarrow> Some Undefined)"

text \<open>
  Sequencing: the second step runs when the first ended normally; an exception, undefined
  behaviour and the end of the fuel (\<open>None\<close>) pass through.
\<close>

definition bind ::
  "('a, 's) Outcome option \<Rightarrow> ('a \<Rightarrow> 's \<Rightarrow> ('b, 's) Outcome option) \<Rightarrow> ('b, 's) Outcome option" where
  "bind m f =
     (case m of
        None \<Rightarrow> None
      | Some (Normal a s) \<Rightarrow> f a s
      | Some (Thrown msg s) \<Rightarrow> Some (Thrown msg s)
      | Some Undefined \<Rightarrow> Some Undefined)"

text \<open>
  A C++ local such as \<^verbatim>\<open>previousEnv\<close> points to a frame of the current chain. It is kept
  as the depth of that frame, and \<^verbatim>\<open>environment_ = previousEnv\<close> selects the frame of that
  depth in the chain as it is then, with the mutations made to it in between.
\<close>

fun depth :: "'f Environment \<Rightarrow> nat" where
  "depth (Environment vs enc) = (case enc of None \<Rightarrow> 1 | Some p \<Rightarrow> Suc (depth p))"

fun ancestor :: "'f Environment \<Rightarrow> nat \<Rightarrow> 'f Environment" where
  "ancestor (Environment vs enc) d =
     (case enc of
        None \<Rightarrow> Environment vs enc
      | Some p \<Rightarrow> if depth p < d then Environment vs enc else ancestor p d)"

definition child :: "'f Environment \<Rightarrow> 'f Environment" where
  "child env = Environment Map.empty (Some env)"

definition restore :: "nat \<Rightarrow> 'f Interpreter \<Rightarrow> 'f Interpreter" where
  "restore previousEnv s = s\<lparr>environment := ancestor (environment s) previousEnv\<rparr>"

section \<open>Native functions (builtins.cpp)\<close>

text \<open>
  The lambdas of \<^verbatim>\<open>defineBuiltins\<close>: the value returned and the text written to
  \<^verbatim>\<open>std::cout\<close>.
\<close>

definition typeName :: "'f Object \<Rightarrow> string" where
  "typeName obj =
     (case type_of obj of
        OT_INTEGER \<Rightarrow> ''int'' | OT_FLOAT \<Rightarrow> ''float'' | OT_STRING \<Rightarrow> ''string''
      | OT_BOOLEAN \<Rightarrow> ''bool'' | OT_ARRAY \<Rightarrow> ''array'' | OT_MAP \<Rightarrow> ''map''
      | OT_FUNCTION \<Rightarrow> ''function'' | OT_CLASS \<Rightarrow> ''class'' | OT_INSTANCE \<Rightarrow> ''instance''
      | OT_NULL_OBJ \<Rightarrow> ''null'')"

definition callNative :: "'f DoubleOps \<Rightarrow> Builtin \<Rightarrow> 'f Object list \<Rightarrow> 'f Object Result \<times> string" where
  "callNative D b args =
     (case b of
        printFunc \<Rightarrow> (Value NullObject, join '' '' (map (toString D) args) @ [CHR 0x0A])
      | lenFunc \<Rightarrow>
          (case args of
             [obj] \<Rightarrow>
               (case obj of
                  StringObject v \<Rightarrow> (makeInteger (int (length v)), [])
                | ArrayObject xs \<Rightarrow> (makeInteger (int (length xs)), [])
                | _ \<Rightarrow> (Value (IntegerObject 0), []))
           | _ \<Rightarrow> (Value NullObject, []))
      | typeFunc \<Rightarrow>
          (case args of
             [obj] \<Rightarrow> (Value (StringObject (typeName obj)), [])
           | _ \<Rightarrow> (Value (StringObject ''unknown''), []))
      | absFunc \<Rightarrow>
          (case args of
             [obj] \<Rightarrow>
               (case obj of
                  IntegerObject i \<Rightarrow> (makeInteger \<bar>i\<bar>, [])
                | FloatObject d \<Rightarrow> (Value (FloatObject (double_abs D d)), [])
                | _ \<Rightarrow> (Value NullObject, []))
           | _ \<Rightarrow> (Value NullObject, []))
      | strFunc \<Rightarrow>
          (case args of
             [obj] \<Rightarrow> (Value (StringObject (toString D obj)), [])
           | _ \<Rightarrow> (Value (StringObject []), []))
      | intFunc \<Rightarrow>
          (case args of
             [obj] \<Rightarrow>
               (case obj of
                  IntegerObject i \<Rightarrow> (Value obj, [])
                | FloatObject d \<Rightarrow>
                    (case double_to_ll D d of Some i \<Rightarrow> (makeInteger i, []) | None \<Rightarrow> (UB, []))
                | StringObject v \<Rightarrow>
                    (case stoll v of
                       Some i \<Rightarrow> (Value (IntegerObject i), [])
                     | None \<Rightarrow> (Value (IntegerObject 0), []))
                | _ \<Rightarrow> (Value (IntegerObject 0), []))
           | _ \<Rightarrow> (Value (IntegerObject 0), []))
      | floatFunc \<Rightarrow>
          (case args of
             [obj] \<Rightarrow>
               (case obj of
                  FloatObject d \<Rightarrow> (Value obj, [])
                | IntegerObject i \<Rightarrow> (Value (FloatObject (double_of_ll D i)), [])
                | StringObject v \<Rightarrow>
                    (case stod D v of
                       Some d \<Rightarrow> (Value (FloatObject d), [])
                     | None \<Rightarrow> (Value (FloatObject (double_of_ll D 0)), []))
                | _ \<Rightarrow> (Value (FloatObject (double_of_ll D 0)), []))
           | _ \<Rightarrow> (Value (FloatObject (double_of_ll D 0)), [])))"

text \<open>
  The constructor \<^verbatim>\<open>Interpreter()\<close>: one global environment, in which
  \<^verbatim>\<open>defineBuiltins\<close> defines the native functions; \<^verbatim>\<open>print\<close> is made with the default
  arity 0, the others with arity 1.
\<close>

definition defineBuiltins :: "'f Environment \<Rightarrow> 'f Environment" where
  "defineBuiltins globals =
     foldl (\<lambda>env (name, b, arity). Environment_define env name (FunctionObject name (Native b) arity))
       globals
       [(''print'', printFunc, 0), (''len'', lenFunc, 1), (''type'', typeFunc, 1), (''abs'', absFunc, 1),
        (''str'', strFunc, 1), (''int'', intFunc, 1), (''float'', floatFunc, 1)]"

definition Interpreter_new :: "'f Interpreter" where
  "Interpreter_new =
     \<lparr>environment = defineBuiltins (Environment Map.empty None),
      lastResult = None, instances = [], cout = []\<rparr>"

section \<open>Evaluation and execution (interpreter.cpp)\<close>

text \<open>
  \<^verbatim>\<open>evaluate\<close> and \<^verbatim>\<open>execute\<close> call each other through the methods below and may run
  forever. Each method is first written with the two functions it calls back as
  parameters \<open>ev\<close> and \<open>ex\<close>; the recursion is then closed by fuel, which bounds the depth
  of the nested calls and the number of iterations of a loop.
\<close>

type_synonym 'f Eval = "'f Expr \<Rightarrow> 'f Interpreter \<Rightarrow> ('f Object, 'f Interpreter) Outcome option"
type_synonym 'f Exec = "'f Stmt \<Rightarrow> 'f Interpreter \<Rightarrow> (unit, 'f Interpreter) Outcome option"

text \<open>The loops \<^verbatim>\<open>for (const auto& x : xs)\<close> over expressions and over statements.\<close>

fun evaluateAll :: "'f Eval \<Rightarrow> 'f Expr list \<Rightarrow> 'f Interpreter \<Rightarrow> ('f Object list, 'f Interpreter) Outcome option" where
  "evaluateAll ev [] s = Some (Normal [] s)"
| "evaluateAll ev (e # es) s =
     bind (ev e s) (\<lambda>v s1.
     bind (evaluateAll ev es s1) (\<lambda>vs s2. Some (Normal (v # vs) s2)))"

fun executeAll :: "'f Exec \<Rightarrow> 'f Stmt list \<Rightarrow> 'f Interpreter \<Rightarrow> (unit, 'f Interpreter) Outcome option" where
  "executeAll ex [] s = Some (Normal () s)"
| "executeAll ex (stmt # stmts) s = bind (ex stmt s) (\<lambda>u s1. executeAll ex stmts s1)"

subsection \<open>Expressions\<close>

definition evaluateBinary :: "'f DoubleOps \<Rightarrow> 'f Eval \<Rightarrow> 'f Expr \<Rightarrow> TokenType \<Rightarrow> 'f Expr \<Rightarrow> 'f Interpreter
    \<Rightarrow> ('f Object, 'f Interpreter) Outcome option" where
  "evaluateBinary D ev l op r s =
     bind (ev l s) (\<lambda>left s1.
     bind (ev r s1) (\<lambda>right s2.
     lift (binaryOp D op left right) s2))"

definition evaluateUnary :: "'f DoubleOps \<Rightarrow> 'f Eval \<Rightarrow> TokenType \<Rightarrow> 'f Expr \<Rightarrow> 'f Interpreter
    \<Rightarrow> ('f Object, 'f Interpreter) Outcome option" where
  "evaluateUnary D ev op r s = bind (ev r s) (\<lambda>right s1. lift (unaryOp D op right) s1)"

text \<open>
  \<^verbatim>\<open>FunctionObject::call\<close> followed by the callable. In the lambda of
  \<^verbatim>\<open>executeFuncDecl\<close> the new environment is a child of \<^verbatim>\<open>environment_\<close> as it is at the
  call, the handler \<^verbatim>\<open>catch (...)\<close> ends every exception of the body, and the value
  returned is the local \<^verbatim>\<open>result\<close>, which is null. The call checked the number of
  arguments unless the arity is 0; reading \<^verbatim>\<open>args[i]\<close> past the end would be undefined.
\<close>

definition callFunction :: "'f DoubleOps \<Rightarrow> 'f Exec \<Rightarrow> 'f Object \<Rightarrow> 'f Object list \<Rightarrow> 'f Interpreter
    \<Rightarrow> ('f Object, 'f Interpreter) Outcome option" where
  "callFunction D ex function arguments s =
     (case function of
        FunctionObject name callable arity \<Rightarrow>
          if length arguments \<noteq> arity \<and> arity \<noteq> 0 then Some (Normal NullObject s)
          else
            (case callable of
               FuncDeclBody params body \<Rightarrow>
                 if length arguments < length params then Some Undefined
                 else
                   (let funcEnv = foldl (\<lambda>env (p, a). Environment_define env p a)
                                    (child (environment s)) (zip params arguments);
                        previousEnv = depth (environment s)
                    in case executeAll ex body (s\<lparr>environment := funcEnv\<rparr>) of
                         None \<Rightarrow> None
                       | Some (Normal u s1) \<Rightarrow> Some (Normal NullObject (restore previousEnv s1))
                       | Some (Thrown msg s1) \<Rightarrow> Some (Normal NullObject (restore previousEnv s1))
                       | Some Undefined \<Rightarrow> Some Undefined)
             | MethodStub \<Rightarrow> Some (Normal NullObject s)
             | Native b \<Rightarrow>
                 (case callNative D b arguments of
                    (r, out) \<Rightarrow> lift r (s\<lparr>cout := cout s @ out\<rparr>)))
      | _ \<Rightarrow> Some Undefined)"

definition evaluateCall :: "'f DoubleOps \<Rightarrow> 'f Eval \<Rightarrow> 'f Exec \<Rightarrow> 'f Expr \<Rightarrow> 'f Expr list \<Rightarrow> 'f Interpreter
    \<Rightarrow> ('f Object, 'f Interpreter) Outcome option" where
  "evaluateCall D ev ex calleeExpr argExprs s =
     bind (ev calleeExpr s) (\<lambda>callee s1.
     bind (evaluateAll ev argExprs s1) (\<lambda>arguments s2.
       case callee of
         FunctionObject name c arity \<Rightarrow> callFunction D ex callee arguments s2
       | ClassObject name methods \<Rightarrow>
           (let instance = InstanceObject (length (instances s2)) name methods;
                s3 = s2\<lparr>instances := instances s2 @ [Map.empty]\<rparr>
            in case getMethod methods ''__init__'' of
                 Some initMethod \<Rightarrow>
                   bind (callFunction D ex initMethod arguments s3) (\<lambda>ignored s4. Some (Normal instance s4))
               | None \<Rightarrow> Some (Normal instance s3))
       | _ \<Rightarrow> Some (Normal NullObject s2)))"

definition evaluateArray :: "'f Eval \<Rightarrow> 'f Expr list \<Rightarrow> 'f Interpreter \<Rightarrow> ('f Object, 'f Interpreter) Outcome option" where
  "evaluateArray ev elementExprs s =
     bind (evaluateAll ev elementExprs s) (\<lambda>elements s1. Some (Normal (ArrayObject elements) s1))"

text \<open>
  \<^verbatim>\<open>evaluateMap\<close>: a pair whose key is not a String is skipped, and its value is not
  evaluated. \<open>put\<close> is \<^verbatim>\<open>map[key] = value\<close>.
\<close>

fun put :: "string \<Rightarrow> 'a \<Rightarrow> (string \<times> 'a) list \<Rightarrow> (string \<times> 'a) list" where
  "put k v [] = [(k, v)]"
| "put k v (p # ps) = (if fst p = k then (k, v) # ps else p # put k v ps)"

fun evaluatePairs :: "'f Eval \<Rightarrow> ('f Expr \<times> 'f Expr) list \<Rightarrow> (string \<times> 'f Object) list \<Rightarrow> 'f Interpreter
    \<Rightarrow> ((string \<times> 'f Object) list, 'f Interpreter) Outcome option" where
  "evaluatePairs ev [] m s = Some (Normal m s)"
| "evaluatePairs ev (pair # pairs) m s =
     bind (ev (fst pair) s) (\<lambda>key s1.
       case key of
         StringObject k \<Rightarrow> bind (ev (snd pair) s1) (\<lambda>v s2. evaluatePairs ev pairs (put k v m) s2)
       | _ \<Rightarrow> evaluatePairs ev pairs m s1)"

definition evaluateMap :: "'f Eval \<Rightarrow> ('f Expr \<times> 'f Expr) list \<Rightarrow> 'f Interpreter \<Rightarrow> ('f Object, 'f Interpreter) Outcome option" where
  "evaluateMap ev pairs s = bind (evaluatePairs ev pairs [] s) (\<lambda>m s1. Some (Normal (MapObject m) s1))"

text \<open>
  \<^verbatim>\<open>evaluateMember\<close> and the Member branch of \<^verbatim>\<open>evaluateAssign\<close> reach the fields of the
  instance through its address; an address outside the store cannot be built by the
  program and is undefined here.
\<close>

definition evaluateMember :: "'f Eval \<Rightarrow> 'f Expr \<Rightarrow> string \<Rightarrow> 'f Interpreter \<Rightarrow> ('f Object, 'f Interpreter) Outcome option" where
  "evaluateMember ev objectExpr property s =
     bind (ev objectExpr s) (\<lambda>object s1.
       case object of
         InstanceObject a cn methods \<Rightarrow>
           if a < length (instances s1)
           then (case InstanceObject_get methods (instances s1 ! a) property of
                   (v, fs) \<Rightarrow> Some (Normal v (s1\<lparr>instances := (instances s1)[a := fs]\<rparr>)))
           else Some Undefined
       | _ \<Rightarrow> Some (Normal NullObject s1))"

definition evaluateIndex :: "'f Eval \<Rightarrow> 'f Expr \<Rightarrow> 'f Expr \<Rightarrow> 'f Interpreter \<Rightarrow> ('f Object, 'f Interpreter) Outcome option" where
  "evaluateIndex ev arrayExpr indexExpr s =
     bind (ev arrayExpr s) (\<lambda>array s1.
     bind (ev indexExpr s1) (\<lambda>index s2.
     Some (Normal (indexValue array index) s2)))"

definition evaluateAssign :: "'f Eval \<Rightarrow> 'f Expr \<Rightarrow> 'f Expr \<Rightarrow> 'f Interpreter \<Rightarrow> ('f Object, 'f Interpreter) Outcome option" where
  "evaluateAssign ev target valueExpr s =
     bind (ev valueExpr s) (\<lambda>v s1.
       case target of
         VariableExpr name \<Rightarrow>
           Some (Normal v (s1\<lparr>environment := Environment_assign (environment s1) name v\<rparr>))
       | MemberExpr objectExpr property \<Rightarrow>
           bind (ev objectExpr s1) (\<lambda>object s2.
             case object of
               InstanceObject a cn methods \<Rightarrow>
                 if a < length (instances s2)
                 then Some (Normal v
                   (s2\<lparr>instances := (instances s2)[a := InstanceObject_set (instances s2 ! a) property v]\<rparr>))
                 else Some Undefined
             | _ \<Rightarrow> Some (Normal v s2))
       | _ \<Rightarrow> Some (Normal v s1))"

text \<open>The chain of \<^verbatim>\<open>dynamic_cast\<close> of \<^verbatim>\<open>Interpreter::evaluate\<close>.\<close>

fun evaluate_with :: "'f DoubleOps \<Rightarrow> 'f Eval \<Rightarrow> 'f Exec \<Rightarrow> 'f Eval" where
  "evaluate_with D ev ex (LiteralExpr text) s = Some (Normal (evaluateLiteral D text) s)"
| "evaluate_with D ev ex (NumberExpr d) s = Some (Normal (FloatObject d) s)"
| "evaluate_with D ev ex (StringExpr v) s = Some (Normal (StringObject v) s)"
| "evaluate_with D ev ex (BoolExpr b) s = Some (Normal (BooleanObject b) s)"
| "evaluate_with D ev ex NullExpr s = Some (Normal NullObject s)"
| "evaluate_with D ev ex (VariableExpr name) s = Some (Normal (Environment_get (environment s) name) s)"
| "evaluate_with D ev ex (BinaryExpr l op r) s = evaluateBinary D ev l op r s"
| "evaluate_with D ev ex (UnaryExpr op r) s = evaluateUnary D ev op r s"
| "evaluate_with D ev ex (CallExpr callee arguments) s = evaluateCall D ev ex callee arguments s"
| "evaluate_with D ev ex (ArrayExpr elements) s = evaluateArray ev elements s"
| "evaluate_with D ev ex (MapExpr pairs) s = evaluateMap ev pairs s"
| "evaluate_with D ev ex (MemberExpr object property) s = evaluateMember ev object property s"
| "evaluate_with D ev ex (IndexExpr array index) s = evaluateIndex ev array index s"
| "evaluate_with D ev ex (AssignExpr target v) s = evaluateAssign ev target v s"

subsection \<open>Statements\<close>

definition executeExprStmt :: "'f Eval \<Rightarrow> 'f Expr \<Rightarrow> 'f Interpreter \<Rightarrow> (unit, 'f Interpreter) Outcome option" where
  "executeExprStmt ev e s = bind (ev e s) (\<lambda>v s1. Some (Normal () (s1\<lparr>lastResult := Some v\<rparr>)))"

definition executeVarDecl :: "'f Eval \<Rightarrow> string \<Rightarrow> 'f Expr option \<Rightarrow> 'f Interpreter \<Rightarrow> (unit, 'f Interpreter) Outcome option" where
  "executeVarDecl ev name initializer s =
     (case initializer of
        None \<Rightarrow> Some (Normal () (s\<lparr>environment := Environment_define (environment s) name NullObject\<rparr>))
      | Some e \<Rightarrow>
          bind (ev e s) (\<lambda>v s1.
            Some (Normal () (s1\<lparr>environment := Environment_define (environment s1) name v\<rparr>))))"

definition executeFuncDecl :: "string \<Rightarrow> string list \<Rightarrow> 'f Stmt list \<Rightarrow> 'f Interpreter \<Rightarrow> (unit, 'f Interpreter) Outcome option" where
  "executeFuncDecl name params body s =
     Some (Normal () (s\<lparr>environment :=
       Environment_define (environment s) name
         (FunctionObject name (FuncDeclBody params body) (length params))\<rparr>))"

definition executeClassDecl :: "string \<Rightarrow> (string \<times> string list \<times> 'f Stmt list) list \<Rightarrow> 'f Interpreter
    \<Rightarrow> (unit, 'f Interpreter) Outcome option" where
  "executeClassDecl name methodDecls s =
     (let methods = foldl (\<lambda>ms (mname, params, body).
                       ms(mname \<mapsto> FunctionObject mname MethodStub (length params)))
                     Map.empty methodDecls
      in Some (Normal () (s\<lparr>environment :=
           Environment_define (environment s) name (ClassObject name methods)\<rparr>)))"

definition executeIfStmt :: "'f Eval \<Rightarrow> 'f Exec \<Rightarrow> 'f Expr \<Rightarrow> 'f Stmt list \<Rightarrow> 'f Stmt list \<Rightarrow> 'f Interpreter
    \<Rightarrow> (unit, 'f Interpreter) Outcome option" where
  "executeIfStmt ev ex condition thenBranch elseBranch s =
     bind (ev condition s) (\<lambda>c s1.
       if isTruthy c then executeAll ex thenBranch s1 else executeAll ex elseBranch s1)"

text \<open>The loop of \<^verbatim>\<open>executeWhileStmt\<close>; the first argument bounds its iterations.\<close>

fun whileLoop :: "nat \<Rightarrow> 'f Eval \<Rightarrow> 'f Exec \<Rightarrow> 'f Expr \<Rightarrow> 'f Stmt list \<Rightarrow> 'f Interpreter
    \<Rightarrow> (unit, 'f Interpreter) Outcome option" where
  "whileLoop 0 ev ex condition body s = None"
| "whileLoop (Suc k) ev ex condition body s =
     bind (ev condition s) (\<lambda>c s1.
       if isTruthy c
       then bind (executeAll ex body s1) (\<lambda>u s2. whileLoop k ev ex condition body s2)
       else Some (Normal () s1))"

text \<open>The loop of \<^verbatim>\<open>executeForStmt\<close>, after the initializer.\<close>

fun forLoop :: "nat \<Rightarrow> 'f Eval \<Rightarrow> 'f Exec \<Rightarrow> 'f Expr option \<Rightarrow> 'f Expr option \<Rightarrow> 'f Stmt list \<Rightarrow> 'f Interpreter
    \<Rightarrow> (unit, 'f Interpreter) Outcome option" where
  "forLoop 0 ev ex condition increment body s = None"
| "forLoop (Suc k) ev ex condition increment body s =
     bind (case condition of
             None \<Rightarrow> Some (Normal True s)
           | Some c \<Rightarrow> bind (ev c s) (\<lambda>v s1. Some (Normal (isTruthy v) s1))) (\<lambda>go s1.
       if go
       then bind (executeAll ex body s1) (\<lambda>u s2.
            bind (case increment of
                    None \<Rightarrow> Some (Normal () s2)
                  | Some i \<Rightarrow> bind (ev i s2) (\<lambda>v s3. Some (Normal () s3))) (\<lambda>u s3.
            forLoop k ev ex condition increment body s3))
       else Some (Normal () s1))"

definition executeForStmt :: "nat \<Rightarrow> 'f Eval \<Rightarrow> 'f Exec \<Rightarrow> 'f Stmt option \<Rightarrow> 'f Expr option \<Rightarrow> 'f Expr option
    \<Rightarrow> 'f Stmt list \<Rightarrow> 'f Interpreter \<Rightarrow> (unit, 'f Interpreter) Outcome option" where
  "executeForStmt k ev ex initializer condition increment body s =
     (let previousEnv = depth (environment s);
          s0 = s\<lparr>environment := child (environment s)\<rparr>
      in bind (case initializer of None \<Rightarrow> Some (Normal () s0) | Some i \<Rightarrow> ex i s0) (\<lambda>u s1.
         bind (forLoop k ev ex condition increment body s1) (\<lambda>u s2.
         Some (Normal () (restore previousEnv s2)))))"

text \<open>\<^verbatim>\<open>executeReturnStmt\<close> stores the value in \<^verbatim>\<open>lastResult_\<close> and throws.\<close>

definition executeReturnStmt :: "'f Eval \<Rightarrow> 'f Expr option \<Rightarrow> 'f Interpreter \<Rightarrow> (unit, 'f Interpreter) Outcome option" where
  "executeReturnStmt ev valueExpr s =
     (case valueExpr of
        None \<Rightarrow> Some (Thrown ''return'' s)
      | Some e \<Rightarrow>
          bind (ev e s) (\<lambda>v s1. Some (Thrown ''return'' (s1\<lparr>lastResult := Some v\<rparr>))))"

text \<open>
  \<^verbatim>\<open>executeTryStmt\<close>: the handler is \<^verbatim>\<open>catch (...)\<close>, it does not read the exception or
  the catch variable, and the finally-body follows the \<^verbatim>\<open>try\<close> block of C++, so it is
  not reached when the catch-body throws.
\<close>

definition executeTryStmt :: "'f Exec \<Rightarrow> 'f Stmt list \<Rightarrow> string \<Rightarrow> 'f Stmt list \<Rightarrow> 'f Stmt list \<Rightarrow> 'f Interpreter
    \<Rightarrow> (unit, 'f Interpreter) Outcome option" where
  "executeTryStmt ex tryBody catchVar catchBody finallyBody s =
     (case executeAll ex tryBody s of
        None \<Rightarrow> None
      | Some (Normal u s1) \<Rightarrow> executeAll ex finallyBody s1
      | Some (Thrown msg s1) \<Rightarrow>
          bind (executeAll ex catchBody s1) (\<lambda>u s2. executeAll ex finallyBody s2)
      | Some Undefined \<Rightarrow> Some Undefined)"

definition executeBlockStmt :: "'f Exec \<Rightarrow> 'f Stmt list \<Rightarrow> 'f Interpreter \<Rightarrow> (unit, 'f Interpreter) Outcome option" where
  "executeBlockStmt ex statements s =
     (let previousEnv = depth (environment s)
      in bind (executeAll ex statements (s\<lparr>environment := child (environment s)\<rparr>)) (\<lambda>u s1.
         Some (Normal () (restore previousEnv s1))))"

text \<open>The chain of \<^verbatim>\<open>dynamic_cast\<close> of \<^verbatim>\<open>Interpreter::execute\<close>.\<close>

fun execute_with :: "nat \<Rightarrow> 'f Eval \<Rightarrow> 'f Exec \<Rightarrow> 'f Exec" where
  "execute_with k ev ex (ExprStmt e) s = executeExprStmt ev e s"
| "execute_with k ev ex (VarDecl name initializer) s = executeVarDecl ev name initializer s"
| "execute_with k ev ex (FuncDecl name params body) s = executeFuncDecl name params body s"
| "execute_with k ev ex (ClassDecl name methods) s = executeClassDecl name methods s"
| "execute_with k ev ex (IfStmt condition thenBranch elseBranch) s =
     executeIfStmt ev ex condition thenBranch elseBranch s"
| "execute_with k ev ex (WhileStmt condition body) s = whileLoop k ev ex condition body s"
| "execute_with k ev ex (ForStmt initializer condition increment body) s =
     executeForStmt k ev ex initializer condition increment body s"
| "execute_with k ev ex (ReturnStmt v) s = executeReturnStmt ev v s"
| "execute_with k ev ex (TryStmt tryBody catchVar catchBody finallyBody) s =
     executeTryStmt ex tryBody catchVar catchBody finallyBody s"
| "execute_with k ev ex (BlockStmt statements) s = executeBlockStmt ex statements s"

subsection \<open>Closing the recursion\<close>

text \<open>
  With no fuel nothing is computed (\<open>None\<close>). With fuel \<open>Suc n\<close>, \<open>evaluate\<close> and
  \<open>execute\<close> are the methods above, calling back \<open>evaluate\<close> and \<open>execute\<close> with fuel
  \<open>n\<close>; a loop makes at most \<open>n\<close> iterations.
\<close>

fun run :: "'f DoubleOps \<Rightarrow> nat \<Rightarrow> 'f Eval \<times> 'f Exec" where
  "run D 0 = ((\<lambda>e s. None), (\<lambda>stmt s. None))"
| "run D (Suc n) =
     (evaluate_with D (fst (run D n)) (snd (run D n)),
      execute_with n (fst (run D n)) (snd (run D n)))"

definition evaluate :: "'f DoubleOps \<Rightarrow> nat \<Rightarrow> 'f Eval" where
  "evaluate D n = fst (run D n)"

definition execute :: "'f DoubleOps \<Rightarrow> nat \<Rightarrow> 'f Exec" where
  "execute D n = snd (run D n)"

text \<open>
  The order in which functions that take fuel are compared: \<open>g\<close> returns whatever \<open>f\<close>
  returns.
\<close>

definition fuel_le :: "('a \<Rightarrow> 's \<Rightarrow> 'r option) \<Rightarrow> ('a \<Rightarrow> 's \<Rightarrow> 'r option) \<Rightarrow> bool" where
  "fuel_le f g = (\<forall>x s r. f x s = Some r \<longrightarrow> g x s = Some r)"

text \<open>
  \<^verbatim>\<open>Interpreter::interpret\<close>: the statements in order; an exception that reaches it is
  printed; the value returned is \<^verbatim>\<open>lastResult_\<close>.
\<close>

definition Interpreter_interpret ::
  "'f DoubleOps \<Rightarrow> nat \<Rightarrow> 'f Stmt list \<Rightarrow> 'f Interpreter \<Rightarrow> ('f Object option, 'f Interpreter) Outcome option" where
  "Interpreter_interpret D n statements s =
     (case executeAll (execute D n) statements s of
        None \<Rightarrow> None
      | Some (Normal u s1) \<Rightarrow> Some (Normal (lastResult s1) s1)
      | Some (Thrown msg s1) \<Rightarrow>
          Some (Normal (lastResult s1) (s1\<lparr>cout := cout s1 @ ''Runtime error: '' @ msg @ [CHR 0x0A]\<rparr>))
      | Some Undefined \<Rightarrow> Some Undefined)"

section \<open>The lexer (lexer.cpp)\<close>

text \<open>
  A \<^verbatim>\<open>Token\<close> is its type, lexeme, line and column. The record below holds the fields of
  the class \<^verbatim>\<open>Lexer\<close>; \<^verbatim>\<open>line_\<close> and \<^verbatim>\<open>column_\<close> are \<^verbatim>\<open>int\<close>, the positions are
  \<^verbatim>\<open>size_t\<close>.
\<close>

datatype Token = Token TokenType string int int

record Lexer =
  source :: string
  tokens :: "Token list"
  start :: nat
  current :: nat
  line :: int
  column :: int

definition keywordTable :: "(string \<times> TokenType) list" where
  "keywordTable =
     [(''class'', CLASS), (''func'', FUNC), (''var'', VAR), (''if'', IF), (''else'', ELSE),
      (''while'', WHILE), (''for'', FOR), (''return'', RETURN), (''try'', TRY),
      (''catch'', CATCH), (''finally'', FINALLY), (''true'', TRUE), (''false'', FALSE),
      (''null'', NULL)]"

definition Lexer_new :: "string \<Rightarrow> Lexer" where
  "Lexer_new src = \<lparr>source = src, tokens = [], start = 0, current = 0, line = 1, column = 1\<rparr>"

definition isAtEnd :: "Lexer \<Rightarrow> bool" where
  "isAtEnd L = (current L \<ge> length (source L))"

text \<open>
  \<^verbatim>\<open>peek\<close> and \<^verbatim>\<open>peekNext\<close> return the NUL character at the end of the source.
  \<^verbatim>\<open>advance\<close> is only called before the end; the character it returns is read as by
  \<^verbatim>\<open>peek\<close>.
\<close>

definition peek :: "Lexer \<Rightarrow> char" where
  "peek L = (if isAtEnd L then CHR 0x00 else source L ! current L)"

definition peekNext :: "Lexer \<Rightarrow> char" where
  "peekNext L = (if current L + 1 \<ge> length (source L) then CHR 0x00 else source L ! (current L + 1))"

definition advance :: "Lexer \<Rightarrow> char \<times> Lexer" where
  "advance L = (peek L, L\<lparr>column := column L + 1, current := current L + 1\<rparr>)"

definition match :: "char \<Rightarrow> Lexer \<Rightarrow> bool \<times> Lexer" where
  "match expected L =
     (if isAtEnd L then (False, L)
      else if source L ! current L \<noteq> expected then (False, L)
      else (True, L\<lparr>current := current L + 1, column := column L + 1\<rparr>))"

definition substr :: "string \<Rightarrow> nat \<Rightarrow> nat \<Rightarrow> string" where
  "substr s pos len = take len (drop pos s)"

definition addTokenLiteral :: "TokenType \<Rightarrow> string \<Rightarrow> Lexer \<Rightarrow> Lexer" where
  "addTokenLiteral t literal L =
     L\<lparr>tokens := tokens L @ [Token t literal (line L) (column L - int (current L - start L))]\<rparr>"

definition addToken :: "TokenType \<Rightarrow> Lexer \<Rightarrow> Lexer" where
  "addToken t L = addTokenLiteral t (substr (source L) (start L) (current L - start L)) L"

definition isAlpha :: "char \<Rightarrow> bool" where
  "isAlpha c =
     ((of_char c \<ge> (of_char CHR ''a'' :: nat) \<and> of_char c \<le> (of_char CHR ''z'' :: nat)) \<or>
      (of_char c \<ge> (of_char CHR ''A'' :: nat) \<and> of_char c \<le> (of_char CHR ''Z'' :: nat)) \<or>
      c = CHR ''_'')"

definition isAlphaNumeric :: "char \<Rightarrow> bool" where
  "isAlphaNumeric c = (isAlpha c \<or> isDigit c)"

definition identifierType :: "string \<Rightarrow> TokenType" where
  "identifierType text = (case map_of keywordTable text of Some t \<Rightarrow> t | None \<Rightarrow> IDENTIFIER)"

text \<open>The loops of \<^verbatim>\<open>scanToken\<close> (a comment), \<^verbatim>\<open>string\<close>, \<^verbatim>\<open>number\<close> and \<^verbatim>\<open>identifier\<close>.\<close>

function commentLoop :: "Lexer \<Rightarrow> Lexer" where
  "commentLoop L =
     (if peek L \<noteq> CHR 0x0A \<and> \<not> isAtEnd L then commentLoop (snd (advance L)) else L)"
  by pat_completeness auto
termination
  by (relation "measure (\<lambda>L. length (source L) - current L)") (auto simp: advance_def isAtEnd_def)

function stringLoop :: "Lexer \<Rightarrow> Lexer" where
  "stringLoop L =
     (if peek L \<noteq> CHR 0x22 \<and> \<not> isAtEnd L
      then stringLoop (snd (advance (if peek L = CHR 0x0A then L\<lparr>line := line L + 1\<rparr> else L)))
      else L)"
  by pat_completeness auto
termination
  by (relation "measure (\<lambda>L. length (source L) - current L)") (auto simp: advance_def isAtEnd_def)

function digitLoop :: "Lexer \<Rightarrow> Lexer" where
  "digitLoop L = (if isDigit (peek L) then digitLoop (snd (advance L)) else L)"
  by pat_completeness auto
termination
  by (relation "measure (\<lambda>L. length (source L) - current L)")
     (auto simp: advance_def isAtEnd_def peek_def isDigit_def split: if_splits)

function alphaNumericLoop :: "Lexer \<Rightarrow> Lexer" where
  "alphaNumericLoop L = (if isAlphaNumeric (peek L) then alphaNumericLoop (snd (advance L)) else L)"
  by pat_completeness auto
termination
  by (relation "measure (\<lambda>L. length (source L) - current L)")
     (auto simp: advance_def isAtEnd_def peek_def isAlphaNumeric_def isAlpha_def isDigit_def split: if_splits)

declare commentLoop.simps [simp del] stringLoop.simps [simp del] digitLoop.simps [simp del]
  alphaNumericLoop.simps [simp del]

definition Lexer_string :: "Lexer \<Rightarrow> Lexer" where
  "Lexer_string L0 =
     (let L = stringLoop L0
      in if isAtEnd L then L
         else (let L1 = snd (advance L)
               in addTokenLiteral STRING (substr (source L1) (start L1 + 1) (current L1 - start L1 - 2)) L1))"

definition Lexer_number :: "Lexer \<Rightarrow> Lexer" where
  "Lexer_number L0 =
     (let L = digitLoop L0;
          L1 = (if peek L = CHR ''.'' \<and> isDigit (peekNext L) then digitLoop (snd (advance L)) else L)
      in addTokenLiteral NUMBER (substr (source L1) (start L1) (current L1 - start L1)) L1)"

definition Lexer_identifier :: "Lexer \<Rightarrow> Lexer" where
  "Lexer_identifier L0 =
     (let L = alphaNumericLoop L0
      in addToken (identifierType (substr (source L) (start L) (current L - start L))) L)"

text \<open>The \<^verbatim>\<open>switch\<close> of \<^verbatim>\<open>scanToken\<close>; the cases that only add a token are a table.\<close>

definition singleCharTokens :: "(char \<times> TokenType) list" where
  "singleCharTokens =
     [(CHR ''('', LEFT_PAREN), (CHR '')'', RIGHT_PAREN), (CHR ''{'', LEFT_BRACE),
      (CHR ''}'', RIGHT_BRACE), (CHR ''['', LEFT_BRACKET), (CHR '']'', RIGHT_BRACKET),
      (CHR '','', COMMA), (CHR ''.'', DOT), (CHR '';'', SEMICOLON), (CHR '':'', COLON),
      (CHR ''+'', PLUS), (CHR ''*'', MULTIPLY), (CHR ''%'', MODULO), (CHR ''-'', MINUS)]"

definition matchToken :: "char \<Rightarrow> TokenType \<Rightarrow> TokenType \<Rightarrow> Lexer \<Rightarrow> Lexer" where
  "matchToken expected yes no L = (case match expected L of (m, L1) \<Rightarrow> addToken (if m then yes else no) L1)"

definition scanToken :: "Lexer \<Rightarrow> Lexer" where
  "scanToken L0 =
     (case advance L0 of (c, L) \<Rightarrow>
        (case map_of singleCharTokens c of
           Some t \<Rightarrow> addToken t L
         | None \<Rightarrow>
            if c = CHR ''/'' then
              (case match (CHR ''/'') L of (m, L1) \<Rightarrow> if m then commentLoop L1 else addToken DIVIDE L1)
            else if c = CHR ''!'' then matchToken (CHR ''='') BANG_EQUAL BANG L
            else if c = CHR ''='' then matchToken (CHR ''='') EQUAL_EQUAL EQUAL L
            else if c = CHR ''<'' then matchToken (CHR ''='') LESS_EQUAL LESS L
            else if c = CHR ''>'' then matchToken (CHR ''='') GREATER_EQUAL GREATER L
            else if c = CHR ''&'' then
              (case match (CHR ''&'') L of (m, L1) \<Rightarrow> if m then addToken AND L1 else L1)
            else if c = CHR ''|'' then
              (case match (CHR ''|'') L of (m, L1) \<Rightarrow> if m then addToken OR L1 else L1)
            else if c = CHR '' '' \<or> c = CHR 0x0D \<or> c = CHR 0x09 then L
            else if c = CHR 0x0A then L\<lparr>line := line L + 1, column := 1\<rparr>
            else if c = CHR 0x22 then Lexer_string L
            else if isDigit c then Lexer_number L
            else if isAlpha c then Lexer_identifier L
            else L))"

text \<open>
  The relation between the lexer before and after a step that the termination of
  \<^verbatim>\<open>scanTokens\<close> rests on: the source is the same and \<^verbatim>\<open>current_\<close> has not moved back.
\<close>

definition progress :: "Lexer \<Rightarrow> Lexer \<Rightarrow> bool" where
  "progress L L' = (source L' = source L \<and> current L \<le> current L')"

text \<open>\<^verbatim>\<open>scanTokens\<close>: the loop over the source, then the end-of-input token.\<close>

function scanLoop :: "Lexer \<Rightarrow> Lexer" where
  "scanLoop L = (if \<not> isAtEnd L then scanLoop (scanToken (L\<lparr>start := current L\<rparr>)) else L)"
  by pat_completeness auto

definition scanTokens :: "string \<Rightarrow> Token list" where
  "scanTokens src = (let L = scanLoop (Lexer_new src) in tokens L @ [Token EOF_TOKEN [] (line L) (column L)])"

section \<open>Observations and inputs used in the statements\<close>

text \<open>
  The bindings of the frames of a chain, innermost first, and the position in that list
  of the first frame that binds a name, or of the last frame when none does.
\<close>

fun frames :: "'f Environment \<Rightarrow> (string \<Rightarrow> 'f Object option) list" where
  "frames (Environment vs enc) = vs # (case enc of None \<Rightarrow> [] | Some p \<Rightarrow> frames p)"

definition assignedFrame :: "(string \<Rightarrow> 'f Object option) list \<Rightarrow> string \<Rightarrow> nat" where
  "assignedFrame fs name =
     (let i = length (takeWhile (\<lambda>f. f name = None) fs)
      in if i < length fs then i else length fs - 1)"

text \<open>
  An instance of the parameter for doubles, for the closed statements below, none of
  which computes with a double: exact arithmetic on rationals, a parser that always
  fails and a printer that prints nothing.
\<close>

definition exactDouble :: "rat DoubleOps" where
  "exactDouble =
     \<lparr>double_of_ll = of_int, double_add = (+), double_sub = (-), double_mul = (*),
      double_div = (/), double_neg = uminus, double_abs = abs, double_less = (<),
      double_eq = (=), double_to_string = (\<lambda>d. []), double_to_ll = (\<lambda>d. Some \<lfloor>d\<rfloor>),
      stod = (\<lambda>text. None)\<rparr>"

text \<open>
  The inputs below are syntax trees, as \<^verbatim>\<open>Interpreter::interpret\<close> takes them; the parser
  is not part of this development, and the source text quoted with a tree is its reading
  in the grammar of the specification.

  The function of the specification,
  \<^verbatim>\<open>func f(n) { if (n < 2) { return n; } return f(n-1) + f(n-2); }\<close>,
  as the tree the specification describes, and as \<^verbatim>\<open>Parser::ifStatement\<close> builds it: it
  reads the then-branch with \<^verbatim>\<open>blockStatements\<close>, which takes the braces for a nested
  block and goes on to the closing brace of the function.
\<close>

definition fib_sum :: "'f Expr" where
  "fib_sum =
     BinaryExpr
       (CallExpr (VariableExpr ''f'') [BinaryExpr (VariableExpr ''n'') MINUS (LiteralExpr ''1'')])
       PLUS
       (CallExpr (VariableExpr ''f'') [BinaryExpr (VariableExpr ''n'') MINUS (LiteralExpr ''2'')])"

definition fib_decl :: "'f Stmt" where
  "fib_decl =
     FuncDecl ''f'' [''n'']
       [IfStmt (BinaryExpr (VariableExpr ''n'') LESS (LiteralExpr ''2''))
          [ReturnStmt (Some (VariableExpr ''n''))] [],
        ReturnStmt (Some fib_sum)]"

definition fib_decl_parsed :: "'f Stmt" where
  "fib_decl_parsed =
     FuncDecl ''f'' [''n'']
       [IfStmt (BinaryExpr (VariableExpr ''n'') LESS (LiteralExpr ''2''))
          [BlockStmt [ReturnStmt (Some (VariableExpr ''n''))], ReturnStmt (Some fib_sum)] []]"

definition call :: "string \<Rightarrow> 'f Expr list \<Rightarrow> 'f Expr" where
  "call name arguments = CallExpr (VariableExpr name) arguments"

text \<open>
  \<^verbatim>\<open>func h() { try { return 1; } finally { print("cleanup"); } print("after"); } h();\<close>
  and
  \<^verbatim>\<open>func k() { try { 1 - "a"; } catch (e) { return 2; } finally { print("cleanup"); } } k();\<close>
\<close>

definition finally_program :: "'f Stmt list" where
  "finally_program =
     [FuncDecl ''h'' []
        [TryStmt [ReturnStmt (Some (LiteralExpr ''1''))] [] []
           [ExprStmt (call ''print'' [StringExpr ''cleanup''])],
         ExprStmt (call ''print'' [StringExpr ''after''])],
      ExprStmt (call ''h'' [])]"

definition catch_return_program :: "'f Stmt list" where
  "catch_return_program =
     [FuncDecl ''k'' []
        [TryStmt [ExprStmt (BinaryExpr (LiteralExpr ''1'') MINUS (StringExpr ''a''))] ''e''
           [ReturnStmt (Some (LiteralExpr ''2''))]
           [ExprStmt (call ''print'' [StringExpr ''cleanup''])]],
      ExprStmt (call ''k'' [])]"

text \<open>
  \<^verbatim>\<open>try { 1 - "a"; } catch (e) { r = e; }\<close> and
  \<^verbatim>\<open>func g() { try { return 1; } catch (e) { print("caught"); } } g();\<close>
\<close>

definition catch_program :: "'f Stmt list" where
  "catch_program =
     [TryStmt [ExprStmt (BinaryExpr (LiteralExpr ''1'') MINUS (StringExpr ''a''))] ''e''
        [ExprStmt (AssignExpr (VariableExpr ''r'') (VariableExpr ''e''))] []]"

definition return_caught_program :: "'f Stmt list" where
  "return_caught_program =
     [FuncDecl ''g'' []
        [TryStmt [ReturnStmt (Some (LiteralExpr ''1''))] ''e''
           [ExprStmt (call ''print'' [StringExpr ''caught''])] []],
      ExprStmt (call ''g'' [])]"

text \<open>
  \<^verbatim>\<open>func f(a) { print(a); } f(1, 2);\<close> and
  \<^verbatim>\<open>func z() { print(7); } z(1, 2);\<close> and
  \<^verbatim>\<open>var x = 1; func g() { r = x; } func h() { var x = 2; g(); } h();\<close>
\<close>

definition arity_program :: "'f Stmt list" where
  "arity_program =
     [FuncDecl ''f'' [''a''] [ExprStmt (call ''print'' [VariableExpr ''a''])],
      ExprStmt (call ''f'' [LiteralExpr ''1'', LiteralExpr ''2''])]"

definition arity0_program :: "'f Stmt list" where
  "arity0_program =
     [FuncDecl ''z'' [] [ExprStmt (call ''print'' [LiteralExpr ''7''])],
      ExprStmt (call ''z'' [LiteralExpr ''1'', LiteralExpr ''2''])]"

definition scope_program :: "'f Stmt list" where
  "scope_program =
     [VarDecl ''x'' (Some (LiteralExpr ''1'')),
      FuncDecl ''g'' [] [ExprStmt (AssignExpr (VariableExpr ''r'') (VariableExpr ''x''))],
      FuncDecl ''h'' [] [VarDecl ''x'' (Some (LiteralExpr ''2'')), ExprStmt (call ''g'' [])],
      ExprStmt (call ''h'' [])]"

text \<open>
  \<^verbatim>\<open>class P { func m() { } } var p = P();\<close> and the state it leaves: one instance, at
  address 0, with no field, bound to \<^verbatim>\<open>p\<close> in the global environment after the class.
\<close>

definition class_program :: "'f Stmt list" where
  "class_program =
     [ClassDecl ''P'' [(''m'', [], [])],
      VarDecl ''p'' (Some (call ''P'' []))]"

definition class_state :: "'f Interpreter" where
  "class_state =
     Interpreter_new
       \<lparr>environment :=
          Environment_define
            (Environment_define (environment Interpreter_new) ''P''
               (ClassObject ''P'' [''m'' \<mapsto> FunctionObject ''m'' MethodStub 0]))
            ''p'' (InstanceObject 0 ''P'' [''m'' \<mapsto> FunctionObject ''m'' MethodStub 0]),
        instances := [Map.empty]\<rparr>"

section \<open>Unfolding one level of the recursion\<close>

lemma evaluate_0: "evaluate D 0 e s = None"
  by (simp add: evaluate_def)

lemma execute_0: "execute D 0 stmt s = None"
  by (simp add: execute_def)

lemma evaluate_Suc: "evaluate D (Suc n) = evaluate_with D (evaluate D n) (execute D n)"
  by (simp add: evaluate_def execute_def)

lemma execute_Suc: "execute D (Suc n) = execute_with n (evaluate D n) (execute D n)"
  by (simp add: evaluate_def execute_def)

lemma bind_Normal: "bind (Some (Normal a s)) f = f a s"
  by (simp add: bind_def)

lemma bind_Thrown: "bind (Some (Thrown m s)) f = Some (Thrown m s)"
  by (simp add: bind_def)

lemma bind_Undefined: "bind (Some Undefined) f = Some Undefined"
  by (simp add: bind_def)

lemma bind_None: "bind None f = None"
  by (simp add: bind_def)

lemma evaluate_numeral:
  "evaluate D (numeral k) e s =
     evaluate_with D (evaluate D (pred_numeral k)) (execute D (pred_numeral k)) e s"
  by (simp add: numeral_eq_Suc evaluate_Suc)

lemma execute_numeral:
  "execute D (numeral k) stmt s =
     execute_with (pred_numeral k) (evaluate D (pred_numeral k)) (execute D (pred_numeral k)) stmt s"
  by (simp add: numeral_eq_Suc execute_Suc)

lemma evaluate_step: "evaluate D (Suc n) e s = evaluate_with D (evaluate D n) (execute D n) e s"
  by (simp add: evaluate_Suc)

lemma execute_step: "execute D (Suc n) stmt s = execute_with n (evaluate D n) (execute D n) stmt s"
  by (simp add: execute_Suc)

lemmas run_simps =
  evaluate_numeral execute_numeral evaluate_step execute_step evaluate_0 execute_0
  bind_Normal bind_Thrown bind_Undefined bind_None lift_def
  evaluateBinary_def evaluateUnary_def evaluateCall_def callFunction_def evaluateArray_def
  evaluateMap_def evaluateMember_def evaluateIndex_def evaluateAssign_def
  executeExprStmt_def executeVarDecl_def executeFuncDecl_def executeClassDecl_def
  executeIfStmt_def executeForStmt_def executeReturnStmt_def executeTryStmt_def
  executeBlockStmt_def Interpreter_interpret_def Interpreter_new_def defineBuiltins_def
  child_def restore_def binaryOp_def unaryOp_def evaluateLiteral_def indexValue_def
  callNative_def checkNumberOperands_def checkNumberOperand_def isNumber_def after_def
  makeInteger_def makeFloat_def makeBoolean_def floatOp_def ll_rem_def LLONG_MIN_def
  LLONG_MAX_def stoll_def isspace_def isDigit_def digits_value_def getMethod_def
  InstanceObject_get_def InstanceObject_set_def isEqual_def to_string_def typeName_def call_def

section \<open>Termination of the lexer\<close>

text \<open>
  Every loop of the lexer keeps the source and never moves \<^verbatim>\<open>current_\<close> back, and
  \<^verbatim>\<open>scanToken\<close> consumes at least one character, so \<^verbatim>\<open>scanTokens\<close> returns on every
  source.
\<close>

section \<open>More fuel, same result\<close>

text \<open>
  Fuel only bounds the computation: what \<open>evaluate\<close> and \<open>execute\<close> return with some
  fuel they return with any larger amount. Each method is monotone in the functions it
  calls back.
\<close>

lemma fuel_leD: "fuel_le f g \<Longrightarrow> f x s = Some r \<Longrightarrow> g x s = Some r"
  by (simp add: fuel_le_def)

lemma bind_mono:
  assumes "bind m f = Some r"
    and "\<And>x. m = Some x \<Longrightarrow> m' = Some x"
    and "\<And>a s. m = Some (Normal a s) \<Longrightarrow> f a s = Some r \<Longrightarrow> f' a s = Some r"
  shows "bind m' f' = Some r"
proof (cases m)
  case None
  then show ?thesis using assms(1) by (simp add: bind_def)
next
  case (Some x)
  then have m': "m' = Some x" by (rule assms(2))
  show ?thesis
  proof (cases x)
    case (Normal a s)
    then show ?thesis using assms(1,3) Some m' by (simp add: bind_def)
  qed (use assms(1) Some m' in \<open>simp_all add: bind_def\<close>)
qed

lemma evaluateAll_mono:
  "fuel_le ev ev' \<Longrightarrow> evaluateAll ev es s = Some r \<Longrightarrow> evaluateAll ev' es s = Some r"
proof (induction es arbitrary: s r)
  case Nil
  then show ?case by simp
next
  case (Cons e es)
  show ?case
    using Cons.prems(2) unfolding evaluateAll.simps
    by (rule bind_mono) (auto elim!: bind_mono fuel_leD [OF Cons.prems(1)] Cons.IH [OF Cons.prems(1)])
qed

lemma executeAll_mono:
  "fuel_le ex ex' \<Longrightarrow> executeAll ex stmts s = Some r \<Longrightarrow> executeAll ex' stmts s = Some r"
proof (induction stmts arbitrary: s r)
  case Nil
  then show ?case by simp
next
  case (Cons e es)
  show ?case
    using Cons.prems(2) unfolding executeAll.simps
    by (rule bind_mono) (auto elim!: fuel_leD [OF Cons.prems(1)] Cons.IH [OF Cons.prems(1)])
qed

lemma evaluatePairs_mono:
  "fuel_le ev ev' \<Longrightarrow> evaluatePairs ev ps m s = Some r \<Longrightarrow> evaluatePairs ev' ps m s = Some r"
proof (induction ps arbitrary: m s r)
  case Nil
  then show ?case by simp
next
  case (Cons p ps)
  show ?case
    using Cons.prems(2) unfolding evaluatePairs.simps
    by (rule bind_mono)
       (auto elim!: bind_mono fuel_leD [OF Cons.prems(1)] Cons.IH [OF Cons.prems(1)] split: Object.splits)
qed

lemma callFunction_mono:
  assumes "fuel_le ex ex'" and "callFunction D ex f args s = Some r"
  shows "callFunction D ex' f args s = Some r"
proof -
  have ea: "\<And>b t x. executeAll ex b t = Some x \<Longrightarrow> executeAll ex' b t = Some x"
    using assms(1) by (rule executeAll_mono)
  show ?thesis
    using assms(2) unfolding callFunction_def Let_def
    by (auto split: Object.splits Callable.splits if_splits option.splits Outcome.splits prod.splits
             dest!: ea)
qed

lemma evaluateBinary_mono:
  "fuel_le ev ev' \<Longrightarrow> evaluateBinary D ev l op r s = Some x \<Longrightarrow> evaluateBinary D ev' l op r s = Some x"
  unfolding evaluateBinary_def by (auto elim!: bind_mono fuel_leD)

lemma evaluateUnary_mono:
  "fuel_le ev ev' \<Longrightarrow> evaluateUnary D ev op r s = Some x \<Longrightarrow> evaluateUnary D ev' op r s = Some x"
  unfolding evaluateUnary_def by (auto elim!: bind_mono fuel_leD)

lemma evaluateCall_mono:
  "fuel_le ev ev' \<Longrightarrow> fuel_le ex ex' \<Longrightarrow> evaluateCall D ev ex c as s = Some x
     \<Longrightarrow> evaluateCall D ev' ex' c as s = Some x"
  unfolding evaluateCall_def Let_def
  by (auto elim!: bind_mono fuel_leD evaluateAll_mono callFunction_mono
           split: Object.splits option.splits)

lemma evaluateArray_mono:
  "fuel_le ev ev' \<Longrightarrow> evaluateArray ev es s = Some x \<Longrightarrow> evaluateArray ev' es s = Some x"
  unfolding evaluateArray_def by (auto elim!: bind_mono evaluateAll_mono)

lemma evaluateMap_mono:
  "fuel_le ev ev' \<Longrightarrow> evaluateMap ev ps s = Some x \<Longrightarrow> evaluateMap ev' ps s = Some x"
  unfolding evaluateMap_def by (auto elim!: bind_mono evaluatePairs_mono)

lemma evaluateMember_mono:
  "fuel_le ev ev' \<Longrightarrow> evaluateMember ev e p s = Some x \<Longrightarrow> evaluateMember ev' e p s = Some x"
  unfolding evaluateMember_def by (auto elim!: bind_mono fuel_leD)

lemma evaluateIndex_mono:
  "fuel_le ev ev' \<Longrightarrow> evaluateIndex ev a i s = Some x \<Longrightarrow> evaluateIndex ev' a i s = Some x"
  unfolding evaluateIndex_def by (auto elim!: bind_mono fuel_leD)

lemma evaluateAssign_mono:
  "fuel_le ev ev' \<Longrightarrow> evaluateAssign ev t v s = Some x \<Longrightarrow> evaluateAssign ev' t v s = Some x"
  unfolding evaluateAssign_def by (auto elim!: bind_mono fuel_leD split: Expr.splits)

lemma evaluate_with_mono:
  "fuel_le ev ev' \<Longrightarrow> fuel_le ex ex' \<Longrightarrow> fuel_le (evaluate_with D ev ex) (evaluate_with D ev' ex')"
  unfolding fuel_le_def [of "evaluate_with D ev ex"]
proof (intro allI impI)
  fix e s r
  assume le: "fuel_le ev ev'" "fuel_le ex ex'" and ev: "evaluate_with D ev ex e s = Some r"
  show "evaluate_with D ev' ex' e s = Some r"
    using ev le
    by (cases e)
       (auto elim: evaluateBinary_mono evaluateUnary_mono evaluateCall_mono evaluateArray_mono
          evaluateMap_mono evaluateMember_mono evaluateIndex_mono evaluateAssign_mono)
qed

lemma executeExprStmt_mono:
  "fuel_le ev ev' \<Longrightarrow> executeExprStmt ev e s = Some x \<Longrightarrow> executeExprStmt ev' e s = Some x"
  unfolding executeExprStmt_def by (auto elim!: bind_mono fuel_leD)

lemma executeVarDecl_mono:
  "fuel_le ev ev' \<Longrightarrow> executeVarDecl ev name i s = Some x \<Longrightarrow> executeVarDecl ev' name i s = Some x"
  unfolding executeVarDecl_def by (auto elim!: bind_mono fuel_leD split: option.splits)

lemma executeIfStmt_mono:
  "fuel_le ev ev' \<Longrightarrow> fuel_le ex ex' \<Longrightarrow> executeIfStmt ev ex c t e s = Some x
     \<Longrightarrow> executeIfStmt ev' ex' c t e s = Some x"
  unfolding executeIfStmt_def by (auto elim!: bind_mono fuel_leD executeAll_mono split: if_splits)

lemma whileLoop_mono:
  "fuel_le ev ev' \<Longrightarrow> fuel_le ex ex' \<Longrightarrow> whileLoop k ev ex c b s = Some x
     \<Longrightarrow> whileLoop (k + j) ev' ex' c b s = Some x"
proof (induction k arbitrary: s x)
  case 0
  then show ?case by simp
next
  case (Suc k)
  show ?case
    using Suc.prems(3) unfolding add_Suc whileLoop.simps
    by (rule bind_mono)
       (auto elim!: bind_mono fuel_leD [OF Suc.prems(1)] executeAll_mono [OF Suc.prems(2)]
          Suc.IH [OF Suc.prems(1,2)] split: if_splits)
qed

lemma forLoop_mono:
  "fuel_le ev ev' \<Longrightarrow> fuel_le ex ex' \<Longrightarrow> forLoop k ev ex c i b s = Some x
     \<Longrightarrow> forLoop (k + j) ev' ex' c i b s = Some x"
proof (induction k arbitrary: s x)
  case 0
  then show ?case by simp
next
  case (Suc k)
  have c_mono: "\<And>s y.
      (case c of None \<Rightarrow> Some (Normal True s)
       | Some c' \<Rightarrow> bind (ev c' s) (\<lambda>v s1. Some (Normal (isTruthy v) s1))) = Some y \<Longrightarrow>
      (case c of None \<Rightarrow> Some (Normal True s)
       | Some c' \<Rightarrow> bind (ev' c' s) (\<lambda>v s1. Some (Normal (isTruthy v) s1))) = Some y"
    by (auto split: option.splits elim!: bind_mono fuel_leD [OF Suc.prems(1)])
  have i_mono: "\<And>s y.
      (case i of None \<Rightarrow> Some (Normal () s)
       | Some i' \<Rightarrow> bind (ev i' s) (\<lambda>v s3. Some (Normal () s3))) = Some y \<Longrightarrow>
      (case i of None \<Rightarrow> Some (Normal () s)
       | Some i' \<Rightarrow> bind (ev' i' s) (\<lambda>v s3. Some (Normal () s3))) = Some y"
    by (auto split: option.splits elim!: bind_mono fuel_leD [OF Suc.prems(1)])
  show ?case
    using Suc.prems(3) unfolding add_Suc forLoop.simps
    by (rule bind_mono)
       (auto elim!: bind_mono c_mono i_mono executeAll_mono [OF Suc.prems(2)]
          Suc.IH [OF Suc.prems(1,2)] split: if_splits)
qed

lemma executeForStmt_mono:
  "fuel_le ev ev' \<Longrightarrow> fuel_le ex ex' \<Longrightarrow> executeForStmt k ev ex i c inc b s = Some x
     \<Longrightarrow> executeForStmt (k + j) ev' ex' i c inc b s = Some x"
  unfolding executeForStmt_def Let_def
  by (auto elim!: bind_mono fuel_leD forLoop_mono split: option.splits)

lemma executeReturnStmt_mono:
  "fuel_le ev ev' \<Longrightarrow> executeReturnStmt ev v s = Some x \<Longrightarrow> executeReturnStmt ev' v s = Some x"
  unfolding executeReturnStmt_def by (auto elim!: bind_mono fuel_leD split: option.splits)

lemma executeTryStmt_mono:
  assumes "fuel_le ex ex'" and "executeTryStmt ex t cv c f s = Some x"
  shows "executeTryStmt ex' t cv c f s = Some x"
proof -
  have ea: "\<And>b t x. executeAll ex b t = Some x \<Longrightarrow> executeAll ex' b t = Some x"
    using assms(1) by (rule executeAll_mono)
  show ?thesis
    using assms(2) unfolding executeTryStmt_def
    by (auto split: option.splits Outcome.splits dest!: ea elim!: bind_mono)
qed

lemma executeBlockStmt_mono:
  "fuel_le ex ex' \<Longrightarrow> executeBlockStmt ex b s = Some x \<Longrightarrow> executeBlockStmt ex' b s = Some x"
  unfolding executeBlockStmt_def Let_def by (auto elim!: bind_mono executeAll_mono)

lemma execute_with_mono:
  "fuel_le ev ev' \<Longrightarrow> fuel_le ex ex' \<Longrightarrow> fuel_le (execute_with k ev ex) (execute_with (k + j) ev' ex')"
  unfolding fuel_le_def [of "execute_with k ev ex"]
proof (intro allI impI)
  fix stmt s r
  assume le: "fuel_le ev ev'" "fuel_le ex ex'" and ex: "execute_with k ev ex stmt s = Some r"
  show "execute_with (k + j) ev' ex' stmt s = Some r"
    using ex le
    by (cases stmt)
       (auto elim: executeExprStmt_mono executeVarDecl_mono executeIfStmt_mono whileLoop_mono
          executeForStmt_mono executeReturnStmt_mono executeTryStmt_mono executeBlockStmt_mono)
qed

lemma fuel_le_refl: "fuel_le f f"
  by (simp add: fuel_le_def)

lemma fuel_Suc: "fuel_le (evaluate D n) (evaluate D (Suc n)) \<and> fuel_le (execute D n) (execute D (Suc n))"
proof (induction n)
  case 0
  show ?case by (simp add: fuel_le_def evaluate_0 execute_0)
next
  case (Suc n)
  then have e: "fuel_le (evaluate D n) (evaluate D (Suc n))" and x: "fuel_le (execute D n) (execute D (Suc n))"
    by simp_all
  have "fuel_le (evaluate_with D (evaluate D n) (execute D n))
          (evaluate_with D (evaluate D (Suc n)) (execute D (Suc n)))"
    using e x by (rule evaluate_with_mono)
  moreover have "fuel_le (execute_with n (evaluate D n) (execute D n))
          (execute_with (n + 1) (evaluate D (Suc n)) (execute D (Suc n)))"
    using e x by (rule execute_with_mono)
  ultimately show ?case by (simp add: evaluate_Suc execute_Suc)
qed

lemma fuel_monotone:
  "(evaluate D n e s = Some r \<longrightarrow> evaluate D (n + k) e s = Some r) \<and>
   (execute D n stmt s = Some x \<longrightarrow> execute D (n + k) stmt s = Some x)"
proof (induction k)
  case 0
  show ?case by simp
next
  case (Suc k)
  then show ?case using fuel_Suc [of D "n + k"] by (auto dest: fuel_leD)
qed

lemma evaluate_fuel: "evaluate D n e s = Some r \<Longrightarrow> evaluate D (n + k) e s = Some r"
  using fuel_monotone [of D n e s r k] by simp

lemma execute_fuel_le: "fuel_le (execute D n) (execute D (n + k))"
  unfolding fuel_le_def using fuel_monotone [of D n _ _ _ k] by blast

lemma executeAll_fuel:
  "executeAll (execute D n) stmts s = Some r \<Longrightarrow> executeAll (execute D (n + k)) stmts s = Some r"
  using execute_fuel_le by (rule executeAll_mono)

lemma interpret_fuel:
  assumes "Interpreter_interpret D n stmts s = Some r"
  shows "Interpreter_interpret D (n + k) stmts s = Some r"
proof (cases "executeAll (execute D n) stmts s")
  case None
  then show ?thesis using assms by (simp add: Interpreter_interpret_def)
next
  case (Some y)
  then have "executeAll (execute D (n + k)) stmts s = Some y" by (rule executeAll_fuel)
  then show ?thesis using assms Some by (simp add: Interpreter_interpret_def)
qed

lemma advance_progress:
  "source (snd (advance L)) = source L" "current (snd (advance L)) = Suc (current L)"
  by (simp_all add: advance_def)

lemma commentLoop_progress:
  "source (commentLoop L) = source L \<and> current L \<le> current (commentLoop L)"
proof (induction L rule: commentLoop.induct)
  case (1 L)
  show ?case
  proof (cases "peek L \<noteq> CHR 0x0A \<and> \<not> isAtEnd L")
    case True
    then have "commentLoop L = commentLoop (snd (advance L))"
      by (subst commentLoop.simps) simp
    then show ?thesis using "1.IH" [OF True] by (simp add: advance_progress)
  next
    case False
    then have "commentLoop L = L" by (subst commentLoop.simps) auto
    then show ?thesis by simp
  qed
qed

lemma stringLoop_progress:
  "source (stringLoop L) = source L \<and> current L \<le> current (stringLoop L)"
proof (induction L rule: stringLoop.induct)
  case (1 L)
  show ?case
  proof (cases "peek L \<noteq> CHR 0x22 \<and> \<not> isAtEnd L")
    case True
    then have "stringLoop L =
        stringLoop (snd (advance (if peek L = CHR 0x0A then L\<lparr>line := line L + 1\<rparr> else L)))"
      by (subst stringLoop.simps) simp
    then show ?thesis
      using "1.IH" [OF True] by (auto simp: advance_progress split: if_splits)
  next
    case False
    then have "stringLoop L = L" by (subst stringLoop.simps) auto
    then show ?thesis by simp
  qed
qed

lemma digitLoop_progress:
  "source (digitLoop L) = source L \<and> current L \<le> current (digitLoop L)"
proof (induction L rule: digitLoop.induct)
  case (1 L)
  show ?case
  proof (cases "isDigit (peek L)")
    case True
    then have "digitLoop L = digitLoop (snd (advance L))" by (subst digitLoop.simps) simp
    then show ?thesis using "1.IH" [OF True] by (simp add: advance_progress)
  next
    case False
    then have "digitLoop L = L" by (subst digitLoop.simps) auto
    then show ?thesis by simp
  qed
qed

lemma alphaNumericLoop_progress:
  "source (alphaNumericLoop L) = source L \<and> current L \<le> current (alphaNumericLoop L)"
proof (induction L rule: alphaNumericLoop.induct)
  case (1 L)
  show ?case
  proof (cases "isAlphaNumeric (peek L)")
    case True
    then have "alphaNumericLoop L = alphaNumericLoop (snd (advance L))"
      by (subst alphaNumericLoop.simps) simp
    then show ?thesis using "1.IH" [OF True] by (simp add: advance_progress)
  next
    case False
    then have "alphaNumericLoop L = L" by (subst alphaNumericLoop.simps) auto
    then show ?thesis by simp
  qed
qed

lemma progress_refl: "progress L L"
  by (simp add: progress_def)

lemma progress_trans: "progress L K \<Longrightarrow> progress K M \<Longrightarrow> progress L M"
  by (simp add: progress_def)

lemma progress_match: "progress L (snd (match e L))"
  by (simp add: progress_def match_def)

lemma progress_addTokenLiteral: "progress L (addTokenLiteral t l L)"
  by (simp add: progress_def addTokenLiteral_def)

lemma progress_addToken: "progress L (addToken t L)"
  by (simp add: addToken_def progress_addTokenLiteral)

lemma progress_matchToken: "progress L (matchToken e y n L)"
  unfolding matchToken_def
  by (cases "match e L")
     (metis progress_match progress_addToken progress_trans snd_conv case_prod_conv)

lemma progress_string: "progress L (Lexer_string L)"
  unfolding Lexer_string_def Let_def
  using stringLoop_progress [of L]
  by (auto simp: progress_def addTokenLiteral_def advance_def)

lemma progress_number: "progress L (Lexer_number L)"
  unfolding Lexer_number_def Let_def
  using digitLoop_progress [of L] digitLoop_progress [of "snd (advance (digitLoop L))"]
  by (auto simp: progress_def addTokenLiteral_def advance_def)

lemma progress_identifier: "progress L (Lexer_identifier L)"
  unfolding Lexer_identifier_def Let_def
  using alphaNumericLoop_progress [of L]
  by (auto simp: progress_def addToken_def addTokenLiteral_def)

lemma progress_comment: "progress L (commentLoop L)"
  using commentLoop_progress [of L] by (simp add: progress_def)

lemma progress_scan_rest:
  "progress L
     (case map_of singleCharTokens c of
        Some t \<Rightarrow> addToken t L
      | None \<Rightarrow>
         if c = CHR ''/'' then
           (case match (CHR ''/'') L of (m, L1) \<Rightarrow> if m then commentLoop L1 else addToken DIVIDE L1)
         else if c = CHR ''!'' then matchToken (CHR ''='') BANG_EQUAL BANG L
         else if c = CHR ''='' then matchToken (CHR ''='') EQUAL_EQUAL EQUAL L
         else if c = CHR ''<'' then matchToken (CHR ''='') LESS_EQUAL LESS L
         else if c = CHR ''>'' then matchToken (CHR ''='') GREATER_EQUAL GREATER L
         else if c = CHR ''&'' then
           (case match (CHR ''&'') L of (m, L1) \<Rightarrow> if m then addToken AND L1 else L1)
         else if c = CHR ''|'' then
           (case match (CHR ''|'') L of (m, L1) \<Rightarrow> if m then addToken OR L1 else L1)
         else if c = CHR '' '' \<or> c = CHR 0x0D \<or> c = CHR 0x09 then L
         else if c = CHR 0x0A then L\<lparr>line := line L + 1, column := 1\<rparr>
         else if c = CHR 0x22 then Lexer_string L
         else if isDigit c then Lexer_number L
         else if isAlpha c then Lexer_identifier L
         else L)"
proof -
  have m1: "\<And>e m L1. match e L = (m, L1) \<Longrightarrow> progress L L1"
    using progress_match by (metis snd_conv)
  have m2: "\<And>e t. progress L (case match e L of (m, L1) \<Rightarrow> if m then addToken t L1 else L1)"
    using m1 progress_addToken progress_trans by (auto split: prod.splits) blast
  have m3: "progress L
      (case match (CHR ''/'') L of (m, L1) \<Rightarrow> if m then commentLoop L1 else addToken DIVIDE L1)"
    using m1 progress_addToken progress_comment progress_trans
    by (auto split: prod.splits) blast+
  have nl: "progress L (L\<lparr>line := line L + 1, column := 1\<rparr>)"
    by (simp add: progress_def)
  have opt: "\<And>x f g. (\<And>t. progress L (f t)) \<Longrightarrow> progress L g
      \<Longrightarrow> progress L (case x of Some t \<Rightarrow> f t | None \<Rightarrow> g)"
    by (simp split: option.splits)
  have ite: "\<And>b x y. progress L x \<Longrightarrow> progress L y \<Longrightarrow> progress L (if b then x else y)"
    by simp
  show ?thesis
    by (intro opt ite progress_refl progress_addToken progress_matchToken progress_string
          progress_number progress_identifier nl m2 m3)
qed

lemma scanToken_progress:
  "source (scanToken L) = source L \<and> current L < current (scanToken L)"
proof -
  obtain c K where K: "advance L = (c, K)" by (cases "advance L")
  then have K': "source K = source L" "current K = Suc (current L)"
    using advance_progress [of L] by auto
  have "progress K (scanToken L)"
    unfolding scanToken_def K prod.case by (rule progress_scan_rest)
  then show ?thesis using K' by (auto simp: progress_def)
qed

termination scanLoop
proof (relation "measure (\<lambda>L. length (source L) - current L)")
  show "wf (measure (\<lambda>L. length (source L) - current L))" by simp
next
  fix L :: Lexer
  assume "\<not> isAtEnd L"
  then have "current L < length (source L)" by (simp add: isAtEnd_def)
  then show "(scanToken (L\<lparr>start := current L\<rparr>), L) \<in> measure (\<lambda>L. length (source L) - current L)"
    using scanToken_progress [of "L\<lparr>start := current L\<rparr>"] by auto
qed

text \<open>The loops, one step at a time, for the evaluation of the lexer on a given source.\<close>

lemma scanLoop_step:
  "\<not> isAtEnd L \<Longrightarrow> scanLoop L = scanLoop (scanToken (L\<lparr>start := current L\<rparr>))"
  by (subst scanLoop.simps) simp

lemma scanLoop_end: "isAtEnd L \<Longrightarrow> scanLoop L = L"
  by (subst scanLoop.simps) simp

lemma commentLoop_step:
  "peek L \<noteq> CHR 0x0A \<Longrightarrow> \<not> isAtEnd L \<Longrightarrow> commentLoop L = commentLoop (snd (advance L))"
  by (subst commentLoop.simps) simp

lemma commentLoop_end: "peek L = CHR 0x0A \<or> isAtEnd L \<Longrightarrow> commentLoop L = L"
  by (subst commentLoop.simps) auto

lemma stringLoop_step:
  "peek L \<noteq> CHR 0x22 \<Longrightarrow> \<not> isAtEnd L \<Longrightarrow>
     stringLoop L = stringLoop (snd (advance (if peek L = CHR 0x0A then L\<lparr>line := line L + 1\<rparr> else L)))"
  by (subst stringLoop.simps) simp

lemma stringLoop_end: "peek L = CHR 0x22 \<or> isAtEnd L \<Longrightarrow> stringLoop L = L"
  by (subst stringLoop.simps) auto

lemma digitLoop_step: "isDigit (peek L) \<Longrightarrow> digitLoop L = digitLoop (snd (advance L))"
  by (subst digitLoop.simps) simp

lemma digitLoop_end: "\<not> isDigit (peek L) \<Longrightarrow> digitLoop L = L"
  by (subst digitLoop.simps) simp

lemma alphaNumericLoop_step:
  "isAlphaNumeric (peek L) \<Longrightarrow> alphaNumericLoop L = alphaNumericLoop (snd (advance L))"
  by (subst alphaNumericLoop.simps) simp

lemma alphaNumericLoop_end: "\<not> isAlphaNumeric (peek L) \<Longrightarrow> alphaNumericLoop L = L"
  by (subst alphaNumericLoop.simps) simp

lemmas lexer_simps =
  scanTokens_def Lexer_new_def scanLoop_step scanLoop_end scanToken_def isAtEnd_def peek_def
  peekNext_def advance_def match_def substr_def addTokenLiteral_def addToken_def isAlpha_def
  isAlphaNumeric_def isDigit_def identifierType_def keywordTable_def commentLoop_step
  commentLoop_end stringLoop_step stringLoop_end digitLoop_step digitLoop_end
  alphaNumericLoop_step alphaNumericLoop_end Lexer_string_def Lexer_number_def
  Lexer_identifier_def singleCharTokens_def matchToken_def Let_def

section \<open>Function calls and \<^verbatim>\<open>return\<close>\<close>

text \<open>
  Whatever the body does, a call of a function declared in the program that returns
  at all returns null: the lambda of \<^verbatim>\<open>executeFuncDecl\<close> never assigns its local
  \<^verbatim>\<open>result\<close>.
\<close>

lemma callFunction_returns_null:
  "callFunction D ex (FunctionObject name (FuncDeclBody params body) arity) arguments s
     = Some (Normal v s') \<Longrightarrow> v = NullObject"
  by (auto simp: callFunction_def Let_def split: if_splits option.splits Outcome.splits)

lemma fib_call_with_fuel_40:
  "\<exists>s1 s2. executeAll (execute D 2) [fib_decl] Interpreter_new = Some (Normal () s1) \<and>
      evaluate D 40 (call ''f'' [LiteralExpr ''6'']) s1 = Some (Normal NullObject s2)"
  by (simp add: fib_decl_def fib_sum_def run_simps)

lemma fib_parsed_call_with_fuel_40:
  "\<exists>s1 s2. executeAll (execute D 2) [fib_decl_parsed] Interpreter_new = Some (Normal () s1) \<and>
      evaluate D 40 (call ''f'' [LiteralExpr ''6'']) s1 = Some (Normal NullObject s2)"
  by (simp add: fib_decl_parsed_def fib_sum_def run_simps)

text \<open>
  Claim C1 says that a call of a user-defined function yields the value of the
  \<^verbatim>\<open>return\<close> statement that ended its body, and that the function \<^verbatim>\<open>f\<close> of the
  specification applied to 6 yields the Integer 8. In the program the call \<^verbatim>\<open>f(6)\<close>
  returns, with 40 units of fuel or more, and yields null, for the tree the specification
  describes and for the tree the parser builds.
\<close>

theorem fib_call_yields_null:
  "(\<exists>s1 s2. executeAll (execute D (2 + k)) [fib_decl] Interpreter_new = Some (Normal () s1) \<and>
      evaluate D (40 + k) (call ''f'' [LiteralExpr ''6'']) s1 = Some (Normal NullObject s2))
   \<and> (\<exists>s1 s2. executeAll (execute D (2 + k)) [fib_decl_parsed] Interpreter_new = Some (Normal () s1) \<and>
      evaluate D (40 + k) (call ''f'' [LiteralExpr ''6'']) s1 = Some (Normal NullObject s2))"
  using fib_call_with_fuel_40 [of D] fib_parsed_call_with_fuel_40 [of D]
  by (meson executeAll_fuel evaluate_fuel)

section \<open>\<^verbatim>\<open>try\<close>, \<^verbatim>\<open>catch\<close> and \<^verbatim>\<open>finally\<close>\<close>

lemma finally_program_with_fuel_10:
  "\<exists>s. Interpreter_interpret D 10 finally_program Interpreter_new = Some (Normal (Some NullObject) s) \<and>
      cout s = [CHR 0x22] @ ''cleanup'' @ [CHR 0x22, CHR 0x0A, CHR 0x22] @ ''after'' @ [CHR 0x22, CHR 0x0A]"
  by (simp add: finally_program_def run_simps)

lemma catch_return_program_with_fuel_10:
  "\<exists>s. Interpreter_interpret D 10 catch_return_program Interpreter_new = Some (Normal (Some NullObject) s) \<and>
      cout s = []"
  by (simp add: catch_return_program_def run_simps)

text \<open>
  Claim C2 says that the finally-body runs once after the try/catch path, also when a
  \<^verbatim>\<open>return\<close> is on its way out, and that the return then goes on:
  \<^verbatim>\<open>try { return 1; } finally { print("cleanup"); }\<close> in a function prints and the call
  returns 1. In the program the handler of the try statement ends the return: the
  finally-body runs, the statement after the try statement runs too, and the call yields
  null. When the return comes from the catch-body the finally-body does not run at all.
\<close>

theorem return_in_try_does_not_leave_the_function:
  "(\<exists>s. Interpreter_interpret D (10 + k) finally_program Interpreter_new = Some (Normal (Some NullObject) s) \<and>
      cout s = [CHR 0x22] @ ''cleanup'' @ [CHR 0x22, CHR 0x0A, CHR 0x22] @ ''after'' @ [CHR 0x22, CHR 0x0A])
   \<and> (\<exists>s. Interpreter_interpret D (10 + k) catch_return_program Interpreter_new = Some (Normal (Some NullObject) s) \<and>
      cout s = [])"
  using finally_program_with_fuel_10 [of D] catch_return_program_with_fuel_10 [of D]
  by (meson interpret_fuel)

lemma catch_program_with_fuel_10:
  "\<exists>s. Interpreter_interpret D 10 catch_program Interpreter_new = Some (Normal (Some NullObject) s) \<and>
      cout s = [] \<and> length (frames (environment s)) = 1 \<and>
      (frames (environment s) ! 0) ''r'' = Some NullObject \<and>
      (frames (environment s) ! 0) ''e'' = None"
  by (simp add: catch_program_def run_simps)

lemma return_caught_program_with_fuel_10:
  "\<exists>s. Interpreter_interpret D 10 return_caught_program Interpreter_new = Some (Normal (Some NullObject) s) \<and>
      cout s = [CHR 0x22] @ ''caught'' @ [CHR 0x22, CHR 0x0A]"
  by (simp add: return_caught_program_def run_simps)

text \<open>
  Claim C5 says that the catch-body runs exactly when the try-body raises a runtime error,
  with the message bound to the catch variable in a new scope, and that a \<^verbatim>\<open>return\<close>
  does not trigger it. In the program, after \<^verbatim>\<open>try { 1 - "a"; } catch (e) { r = e; }\<close>
  the variable \<^verbatim>\<open>r\<close> is null and \<^verbatim>\<open>e\<close> is bound nowhere, and a \<^verbatim>\<open>return\<close> in the
  try-body runs the catch-body.
\<close>

theorem catch_binds_nothing_and_catches_return:
  "(\<exists>s. Interpreter_interpret D (10 + k) catch_program Interpreter_new = Some (Normal (Some NullObject) s) \<and>
      cout s = [] \<and> length (frames (environment s)) = 1 \<and>
      (frames (environment s) ! 0) ''r'' = Some NullObject \<and>
      (frames (environment s) ! 0) ''e'' = None)
   \<and> (\<exists>s. Interpreter_interpret D (10 + k) return_caught_program Interpreter_new = Some (Normal (Some NullObject) s) \<and>
      cout s = [CHR 0x22] @ ''caught'' @ [CHR 0x22, CHR 0x0A])"
  using catch_program_with_fuel_10 [of D] return_caught_program_with_fuel_10 [of D]
  by (meson interpret_fuel)

section \<open>Arithmetic operators\<close>

lemma plus_and_modulo_with_fuel_2:
  "evaluate D 2 (BinaryExpr (LiteralExpr ''1'') PLUS (StringExpr ''a'')) s = Some (Normal NullObject s)
   \<and> evaluate D 2 (BinaryExpr (NumberExpr d) MODULO (LiteralExpr ''2'')) s = Some (Normal NullObject s)
   \<and> evaluate D 2 (BinaryExpr (LiteralExpr ''5'') MODULO (LiteralExpr ''2'')) s
       = Some (Normal (IntegerObject 1) s)
   \<and> evaluate D 2 (BinaryExpr (LiteralExpr ''1'') MINUS (StringExpr ''a'')) s
       = Some (Thrown ''Operands must be numbers.'' s)"
  by (simp add: run_simps)

text \<open>
  Claim C3 says that an arithmetic operator applied outside its domain raises a type
  error: \<^verbatim>\<open>1 + "a"\<close> and \<^verbatim>\<open>5.0 % 2\<close> are errors, \<^verbatim>\<open>5 % 2\<close> is 1. In the program
  \<^verbatim>\<open>1 + "a"\<close> and \<^verbatim>\<open>d % 2\<close> for every Float \<open>d\<close> yield null; \<^verbatim>\<open>5 % 2\<close> is 1, and the
  sibling \<^verbatim>\<open>1 - "a"\<close> throws.
\<close>

theorem plus_and_modulo_outside_domain_yield_null:
  "evaluate D (2 + k) (BinaryExpr (LiteralExpr ''1'') PLUS (StringExpr ''a'')) s = Some (Normal NullObject s)
   \<and> evaluate D (2 + k) (BinaryExpr (NumberExpr d) MODULO (LiteralExpr ''2'')) s = Some (Normal NullObject s)
   \<and> evaluate D (2 + k) (BinaryExpr (LiteralExpr ''5'') MODULO (LiteralExpr ''2'')) s
       = Some (Normal (IntegerObject 1) s)
   \<and> evaluate D (2 + k) (BinaryExpr (LiteralExpr ''1'') MINUS (StringExpr ''a'')) s
       = Some (Thrown ''Operands must be numbers.'' s)"
  using plus_and_modulo_with_fuel_2 [of D s d] by (meson evaluate_fuel)

section \<open>Assignment and lookup\<close>

lemma frames_nonempty: "frames E \<noteq> []"
  by (cases E) simp

lemma frames_assign:
  "frames (Environment_assign E name v) =
     (frames E)[assignedFrame (frames E) name := (frames E ! assignedFrame (frames E) name)(name \<mapsto> v)]"
proof (induction E name v rule: Environment_assign.induct)
  case (1 vs enc name v)
  show ?case
  proof (cases "vs name")
    case (Some old)
    then show ?thesis by (simp add: assignedFrame_def fun_upd_def)
  next
    case None
    note vsN = None
    show ?thesis
    proof (cases enc)
      case None
      then show ?thesis using vsN by (simp add: assignedFrame_def fun_upd_def)
    next
      case (Some p)
      have ne: "frames p \<noteq> []" by (rule frames_nonempty)
      have "assignedFrame (vs # frames p) name = Suc (assignedFrame (frames p) name)"
        using vsN ne by (auto simp: assignedFrame_def Let_def)
      then show ?thesis using vsN Some "1.IH" [OF vsN Some] by simp
    qed
  qed
qed

lemma takeWhile_all: "\<not> length (takeWhile P xs) < length xs \<Longrightarrow> \<forall>x \<in> set xs. P x"
  by (induction xs) (auto split: if_splits)

lemma assignedFrame_first:
  assumes "fs \<noteq> []"
  shows "assignedFrame fs name < length fs \<and>
         (\<forall>j < assignedFrame fs name. (fs ! j) name = None) \<and>
         ((fs ! assignedFrame fs name) name \<noteq> None \<or>
          (assignedFrame fs name = length fs - 1 \<and> (\<forall>f \<in> set fs. f name = None)))"
proof -
  let ?P = "\<lambda>f. f name = None"
  let ?i = "length (takeWhile ?P fs)"
  have before: "\<forall>j < ?i. (fs ! j) name = None"
  proof (intro allI impI)
    fix j assume j: "j < ?i"
    then have "takeWhile ?P fs ! j \<in> set (takeWhile ?P fs)" by (rule nth_mem)
    then have "?P (takeWhile ?P fs ! j)" by (rule set_takeWhileD [THEN conjunct2])
    then show "(fs ! j) name = None" using takeWhile_nth [OF j] by simp
  qed
  show ?thesis
  proof (cases "?i < length fs")
    case True
    then have "\<not> ?P (fs ! ?i)" by (rule nth_length_takeWhile)
    then show ?thesis using True before by (simp add: assignedFrame_def Let_def)
  next
    case False
    have all: "\<forall>f \<in> set fs. f name = None"
      using False by (rule takeWhile_all)
    have "\<forall>j < length fs - 1. (fs ! j) name = None" using all by simp
    then show ?thesis using False assms all by (simp add: assignedFrame_def Let_def)
  qed
qed

lemma get_undefined:
  "\<forall>f\<in>set (frames E). f name = None \<Longrightarrow> Environment_get E name = NullObject"
  by (induction E name rule: Environment_get.induct) (auto split: option.splits)

text \<open>
  Claim C4, as amended. An assignment to a variable changes one frame of the chain and
  only the binding of that name in it: the first frame, walking outward, that binds the
  name, or, when no frame binds it, the last frame of the chain, which is the global one
  (not the current innermost frame). Reading a name that no frame binds yields null, and
  reading a variable never raises an error.
\<close>

theorem assign_mutates_first_defining_frame_or_global:
  "frames (Environment_assign E name v) =
     (frames E)[assignedFrame (frames E) name := (frames E ! assignedFrame (frames E) name)(name \<mapsto> v)]
   \<and> assignedFrame (frames E) name < length (frames E)
   \<and> (\<forall>j < assignedFrame (frames E) name. (frames E ! j) name = None)
   \<and> ((frames E ! assignedFrame (frames E) name) name \<noteq> None \<or>
        (assignedFrame (frames E) name = length (frames E) - 1 \<and> (\<forall>f \<in> set (frames E). f name = None)))
   \<and> ((\<forall>f \<in> set (frames E). f name = None) \<longrightarrow> Environment_get E name = NullObject)
   \<and> evaluate D (Suc n) (VariableExpr name) s = Some (Normal (Environment_get (environment s) name) s)
   \<and> (evaluate D n e s = Some (Normal v s1) \<longrightarrow>
        evaluate D (Suc n) (AssignExpr (VariableExpr name) e) s =
          Some (Normal v (s1\<lparr>environment := Environment_assign (environment s1) name v\<rparr>)))"
  using frames_assign [of E name v] assignedFrame_first [OF frames_nonempty, of E name]
    get_undefined [of E name]
  by (simp add: evaluate_Suc evaluateAssign_def bind_Normal)

text \<open>
  The theorem at a chain of two empty frames and the assignment \<^verbatim>\<open>y = 2\<close>: the name is
  bound in the second frame.
\<close>

theorem assign_mutates_first_defining_frame_or_global_witness:
  "frames (Environment Map.empty (Some (Environment Map.empty None)) :: rat Environment)
     = [Map.empty, Map.empty]
   \<and> evaluate exactDouble 1 (LiteralExpr ''2'') Interpreter_new
       = Some (Normal (IntegerObject 2) Interpreter_new)
   \<and> frames (Environment_assign (Environment Map.empty (Some (Environment Map.empty None)))
        ''y'' (IntegerObject 2 :: rat Object))
       = [Map.empty, [''y'' \<mapsto> IntegerObject 2]]
   \<and> assignedFrame (frames (Environment Map.empty (Some (Environment Map.empty None)) :: rat Environment)) ''y'' = 1
   \<and> Environment_get (Environment Map.empty (Some (Environment Map.empty None)) :: rat Environment) ''y''
       = NullObject
   \<and> evaluate exactDouble 2 (VariableExpr ''y'') Interpreter_new
       = Some (Normal NullObject Interpreter_new)
   \<and> evaluate exactDouble 2 (AssignExpr (VariableExpr ''y'') (LiteralExpr ''2'')) Interpreter_new
       = Some (Normal (IntegerObject 2)
           (Interpreter_new\<lparr>environment :=
              Environment_assign (environment Interpreter_new) ''y'' (IntegerObject 2)\<rparr>))"
proof -
  have h: "evaluate exactDouble 1 (LiteralExpr ''2'') Interpreter_new
      = Some (Normal (IntegerObject 2) Interpreter_new)"
    by (simp add: run_simps)
  have g: "Environment_get (environment (Interpreter_new :: rat Interpreter)) ''y'' = NullObject"
    by (simp add: run_simps)
  show ?thesis
    using h g assign_mutates_first_defining_frame_or_global
      [of "Environment Map.empty (Some (Environment Map.empty None))" "''y''" "IntegerObject 2"
          exactDouble 1 Interpreter_new "LiteralExpr ''2''" Interpreter_new]
    by (simp add: assignedFrame_def numeral_2_eq_2)
qed

text \<open>
  Claim C4 as stated fails: in a chain of two frames that do not bind \<^verbatim>\<open>x\<close>, the
  assignment \<^verbatim>\<open>x = 1\<close> leaves the innermost frame empty and binds \<^verbatim>\<open>x\<close> in the outer
  frame.
\<close>

theorem assign_undefined_not_in_innermost_frame:
  "frames (Environment_assign (Environment Map.empty (Some (Environment Map.empty None)))
      ''x'' (IntegerObject 1))
     = [Map.empty, [''x'' \<mapsto> IntegerObject 1]]"
  by simp

section \<open>Logical operators\<close>

text \<open>
  Claim C6. When the left operand of \<^verbatim>\<open>&&\<close> or \<^verbatim>\<open>||\<close> has a value, the right operand
  is evaluated next, in the state the left one left, whatever that value is: what the
  right operand does (its effects, an exception, running out of fuel) is what the whole
  expression does, and when it has a value the result is the Boolean combination of the
  truthiness of both. Only null and the Boolean false are falsy; the Integer 0 and the
  empty String are truthy.
\<close>

theorem logical_operators_evaluate_both_operands:
  "evaluate D n l s = Some (Normal lv s1) \<Longrightarrow>
     evaluate D (Suc n) (BinaryExpr l AND r) s =
       (case evaluate D n r s1 of
          Some (Normal rv s2) \<Rightarrow> Some (Normal (BooleanObject (isTruthy lv \<and> isTruthy rv)) s2)
        | other \<Rightarrow> other)
   \<and> evaluate D (Suc n) (BinaryExpr l OR r) s =
       (case evaluate D n r s1 of
          Some (Normal rv s2) \<Rightarrow> Some (Normal (BooleanObject (isTruthy lv \<or> isTruthy rv)) s2)
        | other \<Rightarrow> other)
   \<and> isTruthy lv = (lv \<noteq> NullObject \<and> lv \<noteq> BooleanObject False)
   \<and> isTruthy (IntegerObject 0 :: 'f Object) \<and> isTruthy (StringObject [] :: 'f Object)"
proof -
  assume l: "evaluate D n l s = Some (Normal lv s1)"
  have t: "isTruthy lv = (lv \<noteq> NullObject \<and> lv \<noteq> BooleanObject False)"
    by (cases lv) auto
  have a: "evaluate D (Suc n) (BinaryExpr l AND r) s =
       (case evaluate D n r s1 of
          Some (Normal rv s2) \<Rightarrow> Some (Normal (BooleanObject (isTruthy lv \<and> isTruthy rv)) s2)
        | other \<Rightarrow> other)"
    using l by (simp add: evaluate_Suc evaluateBinary_def bind_def binaryOp_def lift_def
                  split: option.split Outcome.split)
  have b: "evaluate D (Suc n) (BinaryExpr l OR r) s =
       (case evaluate D n r s1 of
          Some (Normal rv s2) \<Rightarrow> Some (Normal (BooleanObject (isTruthy lv \<or> isTruthy rv)) s2)
        | other \<Rightarrow> other)"
    using l by (simp add: evaluate_Suc evaluateBinary_def bind_def binaryOp_def lift_def
                  split: option.split Outcome.split)
  show ?thesis using t a b by simp
qed

text \<open>
  The theorem at \<^verbatim>\<open>false && (x = 1)\<close> and \<^verbatim>\<open>true || (x = 1)\<close>: the left operand
  decides the result, and \<^verbatim>\<open>x\<close> is assigned all the same.
\<close>

theorem logical_operators_evaluate_both_operands_witness:
  "evaluate exactDouble 2 (BoolExpr False) Interpreter_new
     = Some (Normal (BooleanObject False) Interpreter_new)
   \<and> evaluate exactDouble 3
       (BinaryExpr (BoolExpr False) AND (AssignExpr (VariableExpr ''x'') (LiteralExpr ''1'')))
       Interpreter_new
       = Some (Normal (BooleanObject False)
           (Interpreter_new\<lparr>environment :=
              Environment_assign (environment Interpreter_new) ''x'' (IntegerObject 1)\<rparr>))
   \<and> evaluate exactDouble 3
       (BinaryExpr (BoolExpr True) OR (AssignExpr (VariableExpr ''x'') (LiteralExpr ''1'')))
       Interpreter_new
       = Some (Normal (BooleanObject True)
           (Interpreter_new\<lparr>environment :=
              Environment_assign (environment Interpreter_new) ''x'' (IntegerObject 1)\<rparr>))"
proof -
  have l: "evaluate exactDouble 2 (BoolExpr False) Interpreter_new
             = Some (Normal (BooleanObject False) Interpreter_new)"
          "evaluate exactDouble 2 (BoolExpr True) Interpreter_new
             = Some (Normal (BooleanObject True) Interpreter_new)"
    by (simp_all add: run_simps)
  have r: "evaluate exactDouble 2 (AssignExpr (VariableExpr ''x'') (LiteralExpr ''1'')) Interpreter_new
       = Some (Normal (IntegerObject 1)
           (Interpreter_new\<lparr>environment :=
              Environment_assign (environment Interpreter_new) ''x'' (IntegerObject 1)\<rparr>))"
    by (simp add: run_simps)
  show ?thesis
    using l(1) r
      logical_operators_evaluate_both_operands
        [OF l(1), of "AssignExpr (VariableExpr ''x'') (LiteralExpr ''1'')"]
      logical_operators_evaluate_both_operands
        [OF l(2), of "AssignExpr (VariableExpr ''x'') (LiteralExpr ''1'')"]
    by (simp add: numeral_3_eq_3 numeral_2_eq_2)
qed

section \<open>Index access\<close>

lemma indexValue_array:
  assumes "length xs < 2 ^ 63"
    and "\<forall>k. iv = IntegerObject k \<longrightarrow> LLONG_MIN \<le> k \<and> k \<le> LLONG_MAX"
  shows "indexValue (ArrayObject xs) iv =
     (case iv of
        IntegerObject k \<Rightarrow> if 0 \<le> k \<and> k < int (length xs) then xs ! nat k else NullObject
      | _ \<Rightarrow> NullObject)"
proof (cases iv)
  case (IntegerObject k)
  then have r: "- (2 ^ 63) \<le> k" "k \<le> 2 ^ 63 - 1"
    using assms(2) by (auto simp: LLONG_MIN_def LLONG_MAX_def)
  show ?thesis
  proof (cases "0 \<le> k")
    case True
    then have "k mod 2 ^ 64 = k" using r by simp
    then show ?thesis using IntegerObject True by (auto simp: indexValue_def Let_def)
  next
    case False
    have "(k + 2 ^ 64) mod 2 ^ 64 = k + 2 ^ 64"
      using r False by (intro mod_pos_pos_trivial) auto
    then have "k mod 2 ^ 64 = k + 2 ^ 64" by simp
    then have "\<not> nat (k mod 2 ^ 64) < length xs"
      using r assms(1) by simp
    then show ?thesis using IntegerObject False by (simp add: indexValue_def Let_def)
  qed
qed (simp_all add: indexValue_def)

text \<open>
  Claim C7, as amended. An index access on an Array raises no error: when the index is an
  Integer within the bounds of the array the value is the element at that index, and when
  it is out of range, negative or not an Integer the value is null. (The array has fewer
  than \<open>2 ^ 63\<close> elements and the Integer is a \<^verbatim>\<open>long long\<close>, as on the machine.)
\<close>

theorem index_out_of_range_yields_null:
  "evaluate D n a s = Some (Normal (ArrayObject xs) s1) \<Longrightarrow>
   evaluate D n i s1 = Some (Normal iv s2) \<Longrightarrow>
   length xs < 2 ^ 63 \<Longrightarrow>
   (\<forall>k. iv = IntegerObject k \<longrightarrow> LLONG_MIN \<le> k \<and> k \<le> LLONG_MAX) \<Longrightarrow>
   evaluate D (Suc n) (IndexExpr a i) s =
     Some (Normal
       (case iv of
          IntegerObject k \<Rightarrow> if 0 \<le> k \<and> k < int (length xs) then xs ! nat k else NullObject
        | _ \<Rightarrow> NullObject) s2)"
  using indexValue_array [of xs iv]
  by (simp add: evaluate_Suc evaluateIndex_def bind_Normal)

text \<open>The theorem at \<^verbatim>\<open>[7][-1]\<close>, which is null.\<close>

theorem index_out_of_range_yields_null_witness:
  "evaluate exactDouble 2 (ArrayExpr [LiteralExpr ''7'']) Interpreter_new
     = Some (Normal (ArrayObject [IntegerObject 7]) Interpreter_new)
   \<and> evaluate exactDouble 2 (UnaryExpr MINUS (LiteralExpr ''1'')) Interpreter_new
     = Some (Normal (IntegerObject (- 1)) Interpreter_new)
   \<and> evaluate exactDouble 3
       (IndexExpr (ArrayExpr [LiteralExpr ''7'']) (UnaryExpr MINUS (LiteralExpr ''1''))) Interpreter_new
     = Some (Normal NullObject Interpreter_new)"
proof -
  have a: "evaluate exactDouble 2 (ArrayExpr [LiteralExpr ''7'']) Interpreter_new
     = Some (Normal (ArrayObject [IntegerObject 7]) Interpreter_new)"
    by (simp add: run_simps)
  have i: "evaluate exactDouble 2 (UnaryExpr MINUS (LiteralExpr ''1'')) Interpreter_new
     = Some (Normal (IntegerObject (- 1)) Interpreter_new)"
    by (simp add: run_simps)
  have len: "length [IntegerObject 7 :: rat Object] < 2 ^ 63" by simp
  have rng: "\<forall>k. (IntegerObject (- 1) :: rat Object) = IntegerObject k \<longrightarrow> LLONG_MIN \<le> k \<and> k \<le> LLONG_MAX"
    by (simp add: LLONG_MIN_def LLONG_MAX_def)
  show ?thesis
    using a i index_out_of_range_yields_null [OF a i len rng]
    by (simp add: numeral_3_eq_3)
qed

text \<open>
  Claim C7 as stated fails: \<^verbatim>\<open>[7][5]\<close>, \<^verbatim>\<open>[7][-1]\<close> and \<^verbatim>\<open>[7]["0"]\<close> end normally with
  the value null.
\<close>

theorem index_access_raises_no_error:
  "evaluate exactDouble 3 (IndexExpr (ArrayExpr [LiteralExpr ''7'']) (LiteralExpr ''5'')) Interpreter_new
     = Some (Normal NullObject Interpreter_new)
   \<and> evaluate exactDouble 3
       (IndexExpr (ArrayExpr [LiteralExpr ''7'']) (UnaryExpr MINUS (LiteralExpr ''1''))) Interpreter_new
     = Some (Normal NullObject Interpreter_new)
   \<and> evaluate exactDouble 3 (IndexExpr (ArrayExpr [LiteralExpr ''7'']) (StringExpr ''0'')) Interpreter_new
     = Some (Normal NullObject Interpreter_new)"
  by (simp add: run_simps)

section \<open>Calls and arity\<close>

lemma callFunction_arity_mismatch:
  "length arguments \<noteq> arity \<Longrightarrow> arity \<noteq> 0 \<Longrightarrow>
     callFunction D ex (FunctionObject name callable arity) arguments s = Some (Normal NullObject s)"
  by (simp add: callFunction_def)

lemma arity_program_with_fuel_10:
  "\<exists>s. Interpreter_interpret D 10 arity_program Interpreter_new = Some (Normal (Some NullObject) s) \<and>
      cout s = []"
  by (simp add: arity_program_def run_simps)

lemma arity0_program_with_fuel_10:
  "\<exists>s. Interpreter_interpret D 10 arity0_program Interpreter_new = Some (Normal (Some NullObject) s) \<and>
      cout s = ''7'' @ [CHR 0x0A]"
  by (simp add: arity0_program_def run_simps)

lemma scope_program_with_fuel_10:
  "\<exists>s. Interpreter_interpret D 10 scope_program Interpreter_new = Some (Normal (Some NullObject) s) \<and>
      Environment_get (environment s) ''r'' = IntegerObject 2 \<and>
      Environment_get (environment s) ''x'' = IntegerObject 1"
  by (simp add: scope_program_def run_simps)

text \<open>
  Claim C8 says that a call with a number of arguments other than the arity raises an
  arity error, and that otherwise the parameters are bound in a new child of the
  environment the function captured. In the program \<^verbatim>\<open>f(1, 2)\<close> for a function of one
  parameter yields null without running the body and without an error; a function of no
  parameter takes any number of arguments and runs; and the new environment is a child of
  the environment of the caller, so that \<^verbatim>\<open>g\<close> called from \<^verbatim>\<open>h\<close> reads the \<^verbatim>\<open>x\<close> of
  \<^verbatim>\<open>h\<close>.
\<close>

theorem arity_mismatch_yields_null:
  "(\<exists>s. Interpreter_interpret D (10 + k) arity_program Interpreter_new = Some (Normal (Some NullObject) s) \<and>
      cout s = [])
   \<and> (\<exists>s. Interpreter_interpret D (10 + k) arity0_program Interpreter_new = Some (Normal (Some NullObject) s) \<and>
      cout s = ''7'' @ [CHR 0x0A])
   \<and> (\<exists>s. Interpreter_interpret D (10 + k) scope_program Interpreter_new = Some (Normal (Some NullObject) s) \<and>
      Environment_get (environment s) ''r'' = IntegerObject 2 \<and>
      Environment_get (environment s) ''x'' = IntegerObject 1)"
  using arity_program_with_fuel_10 [of D] arity0_program_with_fuel_10 [of D]
    scope_program_with_fuel_10 [of D]
  by (meson interpret_fuel)

section \<open>Scanning\<close>

text \<open>
  Claim C9 says that an unterminated string and a character of no token surface as a
  lexical error. In the program \<^verbatim>\<open>scanTokens\<close> has no error to return: the source
  \<^verbatim>\<open>@\<close> and the source \<^verbatim>\<open>"ab\<close> give the end-of-input token alone, and \<^verbatim>\<open>x @ y\<close> gives
  the two identifiers.
\<close>

theorem scanTokens_drops_bad_input:
  "scanTokens ''@'' = [Token EOF_TOKEN [] 1 2]
   \<and> scanTokens [CHR 0x22, CHR ''a'', CHR ''b''] = [Token EOF_TOKEN [] 1 4]
   \<and> scanTokens ''x @ y'' =
       [Token IDENTIFIER ''x'' 1 1, Token IDENTIFIER ''y'' 1 5, Token EOF_TOKEN [] 1 6]"
  by (simp add: lexer_simps)

section \<open>Member access\<close>

lemma class_program_state:
  "executeAll (execute D 4) class_program Interpreter_new = Some (Normal () class_state)"
  by (simp add: class_program_def class_state_def run_simps)

text \<open>
  Claim C10. Member access on an Instance writes to it: when the property is not among
  the fields of the instance and is a method of its class, the access yields the method
  and stores it in the fields under the name of the property, every other field staying
  as it was; a second access finds it among the fields.
\<close>

theorem member_access_inserts_method:
  "evaluate D n objectExpr s = Some (Normal (InstanceObject a cn methods) s1) \<Longrightarrow>
   a < length (instances s1) \<Longrightarrow>
   (instances s1 ! a) property = None \<Longrightarrow>
   methods property = Some method \<Longrightarrow>
   InstanceObject_get methods (instances s1 ! a) property
       = (method, (instances s1 ! a)(property \<mapsto> method))
   \<and> evaluate D (Suc n) (MemberExpr objectExpr property) s
       = Some (Normal method
           (s1\<lparr>instances := (instances s1)[a := (instances s1 ! a)(property \<mapsto> method)]\<rparr>))
   \<and> (\<forall>other. other \<noteq> property \<longrightarrow>
         ((instances s1 ! a)(property \<mapsto> method)) other = (instances s1 ! a) other)
   \<and> InstanceObject_get methods ((instances s1 ! a)(property \<mapsto> method)) property
       = (method, (instances s1 ! a)(property \<mapsto> method))"
  by (simp add: evaluate_Suc evaluateMember_def bind_Normal InstanceObject_get_def getMethod_def)

text \<open>
  The theorem at \<^verbatim>\<open>p.m\<close> in the state left by
  \<^verbatim>\<open>class P { func m() { } } var p = P();\<close>.
\<close>

theorem member_access_inserts_method_witness:
  "evaluate exactDouble 1 (VariableExpr ''p'') class_state
     = Some (Normal (InstanceObject 0 ''P'' [''m'' \<mapsto> FunctionObject ''m'' MethodStub 0]) class_state)
   \<and> instances (class_state :: rat Interpreter) = [Map.empty]
   \<and> evaluate exactDouble 2 (MemberExpr (VariableExpr ''p'') ''m'') class_state
     = Some (Normal (FunctionObject ''m'' MethodStub 0)
         (class_state\<lparr>instances := [[''m'' \<mapsto> FunctionObject ''m'' MethodStub 0]]\<rparr>))"
proof -
  have e: "evaluate exactDouble 1 (VariableExpr ''p'') class_state
     = Some (Normal (InstanceObject 0 ''P'' [''m'' \<mapsto> FunctionObject ''m'' MethodStub 0]) class_state)"
    by (simp add: class_state_def run_simps)
  have i: "instances (class_state :: rat Interpreter) = [Map.empty]"
    by (simp add: class_state_def run_simps)
  have a: "0 < length (instances (class_state :: rat Interpreter))" using i by simp
  have f: "(instances (class_state :: rat Interpreter) ! 0) ''m'' = None" using i by simp
  have m: "[''m'' \<mapsto> FunctionObject ''m'' MethodStub 0 :: rat Object] ''m''
             = Some (FunctionObject ''m'' MethodStub 0)"
    by simp
  show ?thesis
    using e i member_access_inserts_method [OF e a f m]
    by (simp add: numeral_2_eq_2)
qed

end
